theory Spec2Isabelle
  imports Complex_Main "HOL-Library.Multiset"
begin

section \<open>Numbers of the source language\<close>

text \<open>
  The analytics services compute on JavaScript numbers. Finite numbers are modelled by
  the reals (rounding error and overflow of the binary representation are not modelled,
  and the negative zero is identified with zero). Where the source divides without
  first testing the denominator, the quotient may be an infinity or NaN; such values are
  kept in the type \<open>jsnum\<close>, whose operations follow the arithmetic of the language.
\<close>

datatype jsnum = Fin real | PInf | NInf | NaN

text \<open>\<open>a / b\<close> on two finite numbers.\<close>

definition jdiv :: "real \<Rightarrow> real \<Rightarrow> jsnum" where
  "jdiv a b =
     (if b \<noteq> 0 then Fin (a / b)
      else if a > 0 then PInf
      else if a < 0 then NInf
      else NaN)"

text \<open>\<open>x * c\<close> for a finite number \<open>c\<close>.\<close>

fun jscale :: "jsnum \<Rightarrow> real \<Rightarrow> jsnum" where
  "jscale (Fin a) c = Fin (a * c)"
| "jscale PInf c = (if c > 0 then PInf else if c < 0 then NInf else NaN)"
| "jscale NInf c = (if c > 0 then NInf else if c < 0 then PInf else NaN)"
| "jscale NaN c = NaN"

text \<open>\<open>x / c\<close> for a finite number \<open>c > 0\<close> (the source only divides by 10 and 100).\<close>

fun jshrink :: "jsnum \<Rightarrow> real \<Rightarrow> jsnum" where
  "jshrink (Fin a) c = Fin (a / c)"
| "jshrink x c = x"

fun jadd :: "jsnum \<Rightarrow> jsnum \<Rightarrow> jsnum" where
  "jadd NaN y = NaN"
| "jadd x NaN = NaN"
| "jadd (Fin a) (Fin b) = Fin (a + b)"
| "jadd PInf NInf = NaN"
| "jadd NInf PInf = NaN"
| "jadd PInf y = PInf"
| "jadd NInf y = NInf"
| "jadd (Fin a) y = y"

text \<open>\<open>x - y\<close>.\<close>

fun jneg :: "jsnum \<Rightarrow> jsnum" where
  "jneg (Fin a) = Fin (- a)"
| "jneg PInf = NInf"
| "jneg NInf = PInf"
| "jneg NaN = NaN"

definition jsub :: "jsnum \<Rightarrow> jsnum \<Rightarrow> jsnum" where
  "jsub x y = jadd x (jneg y)"

text \<open>\<open>x > y\<close>: false as soon as one side is NaN.\<close>

fun jgt :: "jsnum \<Rightarrow> jsnum \<Rightarrow> bool" where
  "jgt NaN y = False"
| "jgt x NaN = False"
| "jgt (Fin a) (Fin b) = (a > b)"
| "jgt PInf PInf = False"
| "jgt PInf y = True"
| "jgt x PInf = False"
| "jgt NInf y = False"
| "jgt (Fin a) NInf = True"

text \<open>\<open>Math.min(x, y)\<close>: NaN as soon as one argument is NaN.\<close>

fun jmin :: "jsnum \<Rightarrow> jsnum \<Rightarrow> jsnum" where
  "jmin NaN y = NaN"
| "jmin x NaN = NaN"
| "jmin x y = (if jgt x y then y else x)"

text \<open>\<open>Math.abs(x)\<close>.\<close>

fun jabs :: "jsnum \<Rightarrow> jsnum" where
  "jabs (Fin a) = Fin \<bar>a\<bar>"
| "jabs PInf = PInf"
| "jabs NInf = PInf"
| "jabs NaN = NaN"

text \<open>\<open>Math.round(x)\<close>: the nearest integer, halves rounded up.\<close>

definition js_round :: "real \<Rightarrow> real" where
  "js_round x = of_int \<lfloor>x + 1 / 2\<rfloor>"

fun jround :: "jsnum \<Rightarrow> jsnum" where
  "jround (Fin a) = Fin (js_round a)"
| "jround x = x"

text \<open>\<open>Math.round(x * 10) / 10\<close> and \<open>Math.round(x * 100) / 100\<close>.\<close>

definition round1 :: "real \<Rightarrow> real" where
  "round1 x = js_round (x * 10) / 10"

definition round2 :: "real \<Rightarrow> real" where
  "round2 x = js_round (x * 100) / 100"

definition jround1 :: "jsnum \<Rightarrow> jsnum" where
  "jround1 x = jshrink (jround (jscale x 10)) 10"

definition jround2 :: "jsnum \<Rightarrow> jsnum" where
  "jround2 x = jshrink (jround (jscale x 100)) 100"

text \<open>The general product, quotient, maximum and floor.\<close>

fun jmul :: "jsnum \<Rightarrow> jsnum \<Rightarrow> jsnum" where
  "jmul NaN y = NaN"
| "jmul x NaN = NaN"
| "jmul (Fin a) y = jscale y a"
| "jmul x (Fin b) = jscale x b"
| "jmul PInf PInf = PInf"
| "jmul NInf NInf = PInf"
| "jmul PInf NInf = NInf"
| "jmul NInf PInf = NInf"

fun jquot :: "jsnum \<Rightarrow> jsnum \<Rightarrow> jsnum" where
  "jquot NaN y = NaN"
| "jquot x NaN = NaN"
| "jquot (Fin a) (Fin b) = jdiv a b"
| "jquot (Fin a) y = Fin 0"
| "jquot PInf (Fin b) = (if b \<ge> 0 then PInf else NInf)"
| "jquot NInf (Fin b) = (if b \<ge> 0 then NInf else PInf)"
| "jquot x y = NaN"

text \<open>\<open>Math.max(x, y)\<close>: NaN as soon as one argument is NaN.\<close>

fun jmax :: "jsnum \<Rightarrow> jsnum \<Rightarrow> jsnum" where
  "jmax NaN y = NaN"
| "jmax x NaN = NaN"
| "jmax x y = (if jgt y x then y else x)"

fun jfloor :: "jsnum \<Rightarrow> jsnum" where
  "jfloor (Fin a) = Fin (of_int \<lfloor>a\<rfloor>)"
| "jfloor x = x"


fun is_fin :: "jsnum \<Rightarrow> bool" where
  "is_fin (Fin a) = True"
| "is_fin x = False"


section \<open>Descriptive statistics (bottleneckDetectionService.ts)\<close>

record Statistics =
  mean :: real
  median :: real
  q1 :: real
  q3 :: real
  iqr :: real
  stdDev :: real

text \<open>
  \<open>values.reduce((a, b) => a + b, 0)\<close> is a left fold from 0. \<open>[...values].sort((a, b) => a - b)\<close>
  orders a copy of the finite samples ascending. The three order statistics are read at
  \<open>Math.floor(n / 2)\<close>, \<open>Math.floor(n * 0.25)\<close> and \<open>Math.floor(n * 0.75)\<close>, all of them below
  \<open>n\<close> when \<open>n > 0\<close>, so no read is out of range.
\<close>

definition calculateStatistics :: "real list \<Rightarrow> Statistics" where
  "calculateStatistics vals =
     (if length vals = 0 then
        \<lparr>mean = 0, median = 0, q1 = 0, q3 = 0, iqr = 0, stdDev = 0\<rparr>
      else
        let sorted = sort vals;
            n = real (length vals);
            mean = foldl (\<lambda>a b. a + b) 0 vals / n;
            median = sorted ! nat \<lfloor>real (length sorted) / 2\<rfloor>;
            q1 = sorted ! nat \<lfloor>real (length sorted) * 0.25\<rfloor>;
            q3 = sorted ! nat \<lfloor>real (length sorted) * 0.75\<rfloor>;
            iqr = q3 - q1;
            variance = foldl (\<lambda>sum val. sum + (val - mean) ^ 2) 0 vals / n;
            stdDev = sqrt variance
        in \<lparr>mean = mean, median = median, q1 = q1, q3 = q3, iqr = iqr, stdDev = stdDev\<rparr>)"

text \<open>The profile as the specification words it: order statistics of the ascending
  samples, arithmetic mean, population variance.\<close>

definition spec_mean :: "real list \<Rightarrow> real" where
  "spec_mean vals = sum_list vals / real (length vals)"

definition spec_variance :: "real list \<Rightarrow> real" where
  "spec_variance vals = (\<Sum>v\<leftarrow>vals. (v - spec_mean vals) ^ 2) / real (length vals)"


section \<open>Insertion-ordered maps\<close>

text \<open>
  A \<open>Map\<close> of the source keeps its keys in insertion order and is iterated in that order.
  It is modelled by an association list with distinct keys: \<open>omap_set\<close> replaces the
  value of a present key in place and appends an absent key, as \<open>Map.prototype.set\<close> does;
  \<open>Map.prototype.get\<close> is \<open>map_of\<close>.
\<close>

fun omap_set :: "('k \<times> 'v) list \<Rightarrow> 'k \<Rightarrow> 'v \<Rightarrow> ('k \<times> 'v) list" where
  "omap_set [] k v = [(k, v)]"
| "omap_set ((k', v') # m) k v =
     (if k' = k then (k, v) # m else (k', v') # omap_set m k v)"


section \<open>Journey reconstruction (patientFlowService.ts)\<close>

datatype Category = Emergency | Diagnostics | Treatment | Recovery | Discharge

text \<open>
  A row of \<open>department_flow_logs\<close> joined with its patient and department. Timestamps are
  the milliseconds since the epoch that \<open>new Date(s).getTime()\<close> gives for a parseable
  string; \<open>None\<close> stands for a null or empty field.
\<close>

record FlowLog =
  log_patient_id :: "string option"
  log_department :: "string option"
  entry_time :: "int option"
  exit_time :: "int option"

record Stage =
  department :: string
  category :: Category
  entryTime :: int
  exitTime :: int
  duration :: real

record PatientJourney =
  patientId :: string
  totalDuration :: real
  stages :: "Stage list"

definition DEPARTMENT_CATEGORIES :: "(string \<times> Category) list" where
  "DEPARTMENT_CATEGORIES =
     [(''Emergency'', Emergency), (''ER'', Emergency), (''Trauma'', Emergency),
      (''ICU'', Treatment), (''Surgery'', Treatment), (''Operating Room'', Treatment),
      (''Cardiology'', Treatment), (''Neurology'', Treatment), (''Oncology'', Treatment),
      (''Orthopedics'', Treatment), (''Orthopedic Surgery'', Treatment),
      (''Pediatrics'', Treatment), (''Internal Medicine'', Treatment),
      (''Pulmonology'', Treatment), (''Rheumatology'', Treatment),
      (''Nephrology'', Treatment), (''Psychiatry'', Treatment), (''Urology'', Treatment),
      (''Gastroenterology'', Treatment), (''Dermatology'', Treatment),
      (''Cardiothoracic Surgery'', Treatment), (''Neurosurgery'', Treatment),
      (''Ent'', Treatment), (''Gynecology'', Treatment), (''Obstetrics'', Treatment),
      (''Ophthalmology'', Treatment), (''Burn Unit'', Treatment),
      (''Infectious Diseases'', Treatment), (''Dialysis'', Treatment),
      (''Radiology'', Diagnostics), (''Laboratory'', Diagnostics),
      (''Imaging'', Diagnostics), (''Pathology'', Diagnostics),
      (''Recovery'', Recovery), (''Post-Op'', Recovery), (''Rehabilitation'', Recovery),
      (''Discharge'', Discharge), (''Discharge Planning'', Discharge),
      (''Pharmacy'', Discharge), (''General'', Treatment), (''Inpatient'', Treatment),
      (''Outpatient'', Treatment)]"

definition categorizeDepartment :: "string \<Rightarrow> Category" where
  "categorizeDepartment deptName =
     (case map_of DEPARTMENT_CATEGORIES deptName of Some c \<Rightarrow> c | None \<Rightarrow> Treatment)"

text \<open>\<open>x || d\<close> and \<open>!x\<close> on an optional string: null and the empty string are falsy.\<close>

definition str_or :: "string option \<Rightarrow> string \<Rightarrow> string" where
  "str_or x d = (case x of None \<Rightarrow> d | Some s \<Rightarrow> if s = [] then d else s)"

definition truthy :: "string option \<Rightarrow> bool" where
  "truthy x = (case x of None \<Rightarrow> False | Some s \<Rightarrow> s \<noteq> [])"

text \<open>Minutes between two timestamps: \<open>(b.getTime() - a.getTime()) / (1000 * 60)\<close>.\<close>

definition minutes_between :: "int \<Rightarrow> int \<Rightarrow> real" where
  "minutes_between a b = real_of_int (b - a) / (1000 * 60)"

text \<open>
  The body of the loop over the fetched rows. \<open>fdept\<close> is \<open>filters?.department\<close>. A row is
  skipped when the patient id, the entry or the exit time is missing, when it is not of the
  filtered department, or when its duration is negative; otherwise a stage is pushed onto
  the journey of its patient, which is created on first sight.
\<close>

definition add_log ::
  "string option \<Rightarrow> (string \<times> PatientJourney) list \<Rightarrow> FlowLog
     \<Rightarrow> (string \<times> PatientJourney) list" where
  "add_log fdept journeyMap row =
     (let deptName = str_or (log_department row) ''Unknown'' in
      if \<not> truthy (log_patient_id row) \<or> entry_time row = None \<or> exit_time row = None
      then journeyMap
      else if truthy fdept \<and> deptName \<noteq> the fdept then journeyMap
      else
        let pid = the (log_patient_id row);
            entry = the (entry_time row);
            exit = the (exit_time row);
            duration = minutes_between entry exit
        in if duration < 0 then journeyMap
           else
             let journey = (case map_of journeyMap pid of
                              Some j \<Rightarrow> j
                            | None \<Rightarrow> \<lparr>patientId = pid, totalDuration = 0, stages = []\<rparr>);
                 stage = \<lparr>department = deptName, category = categorizeDepartment deptName,
                          entryTime = entry, exitTime = exit, duration = duration\<rparr>
             in omap_set journeyMap pid (journey\<lparr>stages := stages journey @ [stage]\<rparr>))"

text \<open>
  The second loop: each journey's stages are sorted by entry time (the sort of the
  language is stable, as insertion sort by key is) and the total is the left fold of the
  stage durations.
\<close>

definition finish_journey :: "PatientJourney \<Rightarrow> PatientJourney" where
  "finish_journey journey =
     (let sorted = sort_key entryTime (stages journey)
      in journey\<lparr>stages := sorted,
                 totalDuration := foldl (\<lambda>sum stage. sum + duration stage) 0 sorted\<rparr>)"

text \<open>\<open>getPatientJourneys\<close> after the query: from the fetched rows to the journeys.\<close>

definition getPatientJourneys :: "string option \<Rightarrow> FlowLog list \<Rightarrow> PatientJourney list" where
  "getPatientJourneys fdept flowLogs =
     (if length flowLogs = 0 then []
      else map (finish_journey \<circ> snd) (foldl (add_log fdept) [] flowLogs))"


section \<open>Bottleneck detection (bottleneckDetectionService.ts)\<close>

definition calculateZScore :: "real \<Rightarrow> real \<Rightarrow> real \<Rightarrow> real" where
  "calculateZScore val mean' stdDev' = (if stdDev' = 0 then 0 else (val - mean') / stdDev')"

definition calculateIQRPosition :: "real \<Rightarrow> real \<Rightarrow> real \<Rightarrow> real \<Rightarrow> real" where
  "calculateIQRPosition val q1' q3' iqr' =
     (if iqr' = 0 then 0
      else if val < q1' then (q1' - val) / iqr'
      else if val > q3' then (val - q3') / iqr'
      else 0)"

record DepartmentAnalysis =
  name :: string
  times :: "real list"
  patientVolume :: nat
  downstreamDelays :: "(string \<times> real) list"
  processingVariance :: real
  expectedTime :: real
  actualTime :: real

definition new_analysis :: "string \<Rightarrow> DepartmentAnalysis" where
  "new_analysis dept =
     \<lparr>name = dept, times = [], patientVolume = 0, downstreamDelays = [],
      processingVariance = 0, expectedTime = 0, actualTime = 0\<rparr>"

text \<open>
  The body of the inner loop of \<open>analyzeDepartmentFlows\<close> for the stage at index \<open>i\<close>;
  \<open>nxt\<close> is the stage at \<open>i + 1\<close> when \<open>i < journey.stages.length - 1\<close>. The analysis
  object is mutated in place in the source, so its position in the map is kept.
\<close>

definition track_stage ::
  "(string \<times> DepartmentAnalysis) list \<Rightarrow> Stage \<Rightarrow> Stage option
     \<Rightarrow> (string \<times> DepartmentAnalysis) list" where
  "track_stage deptAnalysis stage nxt =
     (let analysis0 = (case map_of deptAnalysis (department stage) of
                         Some a \<Rightarrow> a
                       | None \<Rightarrow> new_analysis (department stage));
          analysis1 = analysis0\<lparr>times := times analysis0 @ [duration stage],
                                patientVolume := patientVolume analysis0 + 1\<rparr>;
          analysis2 =
            (case nxt of
               None \<Rightarrow> analysis1
             | Some nextStage \<Rightarrow>
                 let waitTime = minutes_between (exitTime stage) (entryTime nextStage) in
                 if waitTime > 0 then
                   let currentDelay =
                         (case map_of (downstreamDelays analysis1) (department nextStage) of
                            Some d \<Rightarrow> d
                          | None \<Rightarrow> 0)
                   in analysis1\<lparr>downstreamDelays :=
                        omap_set (downstreamDelays analysis1) (department nextStage)
                          (currentDelay + waitTime)\<rparr>
                 else analysis1)
      in omap_set deptAnalysis (department stage) analysis2)"

fun track_stages ::
  "(string \<times> DepartmentAnalysis) list \<Rightarrow> Stage list \<Rightarrow> (string \<times> DepartmentAnalysis) list" where
  "track_stages deptAnalysis [] = deptAnalysis"
| "track_stages deptAnalysis [stage] = track_stage deptAnalysis stage None"
| "track_stages deptAnalysis (stage # nextStage # rest) =
     track_stages (track_stage deptAnalysis stage (Some nextStage)) (nextStage # rest)"

definition set_statistics :: "DepartmentAnalysis \<Rightarrow> DepartmentAnalysis" where
  "set_statistics analysis =
     (let stats = calculateStatistics (times analysis)
      in analysis\<lparr>expectedTime := median stats, actualTime := mean stats,
                  processingVariance := (stdDev stats) ^ 2\<rparr>)"

definition analyzeDepartmentFlows ::
  "PatientJourney list \<Rightarrow> (string \<times> DepartmentAnalysis) list" where
  "analyzeDepartmentFlows journeys =
     map (\<lambda>(k, analysis). (k, set_statistics analysis))
       (foldl (\<lambda>deptAnalysis journey. track_stages deptAnalysis (stages journey)) [] journeys)"

datatype BottleneckType = Invisible | Obvious | Emerging

datatype LoadLevel = Low | Moderate | High

text \<open>
  The values the loop body of \<open>detectBottlenecks\<close> computes for one department, under the
  names of its local variables. The quotient by \<open>analysis.actualTime\<close> in the delay
  propagation score and the quotient by \<open>deptStats.mean\<close> in the congestion indicator are
  taken without a test of the denominator in the source.
\<close>

record UnitMetrics =
  zScore :: real
  iqrPosition :: real
  varianceRatio :: real
  timeDeviation :: real
  downstreamDepts :: "string list"
  avgDownstreamDelay :: real
  delayPropagationScore :: jsnum
  volumePercentile :: real
  patientImpactScore :: real
  congestionIndicator :: jsnum
  resourceStrainScore :: jsnum
  overallImpactScore :: jsnum
  loadLevel :: LoadLevel

definition unit_metrics :: "Statistics \<Rightarrow> Statistics \<Rightarrow> DepartmentAnalysis \<Rightarrow> UnitMetrics" where
  "unit_metrics globalStats volumeStats analysis =
     (let deptStats = calculateStatistics (times analysis);
          zScore = calculateZScore (actualTime analysis) (mean globalStats) (stdDev globalStats);
          iqrPosition = calculateIQRPosition (actualTime analysis) (q1 globalStats)
                          (q3 globalStats) (iqr globalStats);
          varianceRatio = (if stdDev globalStats > 0
                           then stdDev deptStats / stdDev globalStats else 1);
          timeDeviation = (if expectedTime analysis > 0
                           then ((actualTime analysis - expectedTime analysis)
                                   / expectedTime analysis) * 100
                           else 0);
          totalDownstreamDelay =
            foldl (\<lambda>total (downstreamDept, delay). total + delay) 0 (downstreamDelays analysis);
          downstreamDepts =
            map fst (filter (\<lambda>(downstreamDept, delay). delay > mean deptStats * 0.2)
                       (downstreamDelays analysis));
          avgDownstreamDelay = (if length (downstreamDelays analysis) > 0
                                then totalDownstreamDelay / real (length (downstreamDelays analysis))
                                else 0);
          delayPropagationScore =
            jmin (jscale (jdiv avgDownstreamDelay (actualTime analysis)) 100) (Fin 100);
          volumePercentile = (if mean volumeStats > 0
                              then (real (patientVolume analysis) / mean volumeStats) * 100
                              else 0);
          timeImpact = \<bar>timeDeviation\<bar>;
          patientImpactScore = (volumePercentile * 0.4) + (timeImpact * 0.6);
          congestionIndicator = (if stdDev deptStats > mean deptStats * 0.5
                                 then jdiv (stdDev deptStats) (mean deptStats) else Fin 0);
          resourceStrainScore =
            jmin (jadd (jadd (jscale congestionIndicator 30) (Fin (varianceRatio * 40)))
                    (Fin (\<bar>zScore\<bar> * 30)))
              (Fin 100);
          overallImpactScore =
            jadd (jadd (Fin (patientImpactScore * 0.35)) (jscale delayPropagationScore 0.35))
              (jscale resourceStrainScore 0.3);
          loadLevel = (if volumePercentile < 60 then Low
                       else if volumePercentile < 100 then Moderate
                       else High)
      in \<lparr>zScore = zScore, iqrPosition = iqrPosition, varianceRatio = varianceRatio,
          timeDeviation = timeDeviation, downstreamDepts = downstreamDepts,
          avgDownstreamDelay = avgDownstreamDelay,
          delayPropagationScore = delayPropagationScore,
          volumePercentile = volumePercentile, patientImpactScore = patientImpactScore,
          congestionIndicator = congestionIndicator,
          resourceStrainScore = resourceStrainScore,
          overallImpactScore = overallImpactScore, loadLevel = loadLevel\<rparr>)"

text \<open>The ordered decision on the type; \<open>None\<close> is the \<open>continue\<close> of the last branch.\<close>

definition determine_type :: "UnitMetrics \<Rightarrow> BottleneckType option" where
  "determine_type m =
     (if loadLevel m = Moderate \<and> jgt (delayPropagationScore m) (Fin 30) then Some Invisible
      else if loadLevel m = High \<and> timeDeviation m > 50 then Some Obvious
      else if varianceRatio m > 1.3 \<and> jgt (congestionIndicator m) (Fin 0.8) then Some Emerging
      else None)"

text \<open>
  The record pushed for a reported department. Its three narrative fields
  (\<open>whyBottleneck\<close>, \<open>affectedPatientTypes\<close>, \<open>downstreamEffects\<close>) are presentation text
  produced by \<open>generateExplanations\<close>; they take no part in the selection, the scores or the
  ranking and are left out of the model.
\<close>

record BottleneckDetection =
  departmentName :: string
  rank :: nat
  bottleneckType :: BottleneckType
  b_expectedTime :: real
  b_actualTime :: real
  b_timeDeviation :: real
  b_zScore :: real
  b_iqrPosition :: real
  b_varianceRatio :: real
  b_patientImpactScore :: real
  b_delayPropagationScore :: jsnum
  b_resourceStrainScore :: jsnum
  b_overallImpactScore :: jsnum
  patientsAffected :: nat
  downstreamDepartments :: "string list"
  b_loadLevel :: LoadLevel
  b_congestionIndicator :: jsnum

definition assess_department ::
  "Statistics \<Rightarrow> Statistics \<Rightarrow> string \<times> DepartmentAnalysis \<Rightarrow> BottleneckDetection option" where
  "assess_department globalStats volumeStats entry =
     (case entry of (deptName, analysis) \<Rightarrow>
        if length (times analysis) < 3 then None
        else
          let m = unit_metrics globalStats volumeStats analysis in
          (case determine_type m of
             None \<Rightarrow> None
           | Some ty \<Rightarrow>
               Some \<lparr>departmentName = deptName,
                     rank = 0,
                     bottleneckType = ty,
                     b_expectedTime = js_round (expectedTime analysis),
                     b_actualTime = js_round (actualTime analysis),
                     b_timeDeviation = round1 (timeDeviation m),
                     b_zScore = round2 (zScore m),
                     b_iqrPosition = round2 (iqrPosition m),
                     b_varianceRatio = round2 (varianceRatio m),
                     b_patientImpactScore = round1 (patientImpactScore m),
                     b_delayPropagationScore = jround1 (delayPropagationScore m),
                     b_resourceStrainScore = jround1 (resourceStrainScore m),
                     b_overallImpactScore = jround1 (overallImpactScore m),
                     patientsAffected = patientVolume analysis,
                     downstreamDepartments = downstreamDepts m,
                     b_loadLevel = loadLevel m,
                     b_congestionIndicator = jround2 (congestionIndicator m)\<rparr>))"

text \<open>
  \<open>xs.sort(c)\<close> for a comparator \<open>c\<close> that returns a number: stable, \<open>a\<close> stays before
  \<open>b\<close> unless \<open>c(a, b) > 0\<close> (a NaN result counts as 0). For a comparator that is a
  consistent order this is the result of every stable sort; on keys that are NaN the
  language leaves the order to the implementation and the model keeps insertion sort.
\<close>

fun insort_cmp :: "('a \<Rightarrow> 'a \<Rightarrow> jsnum) \<Rightarrow> 'a \<Rightarrow> 'a list \<Rightarrow> 'a list" where
  "insort_cmp c x [] = [x]"
| "insort_cmp c x (y # ys) =
     (if jgt (c x y) (Fin 0) then y # insort_cmp c x ys else x # y # ys)"

definition sort_cmp :: "('a \<Rightarrow> 'a \<Rightarrow> jsnum) \<Rightarrow> 'a list \<Rightarrow> 'a list" where
  "sort_cmp c xs = foldr (insort_cmp c) xs []"

text \<open>\<open>bottlenecks.forEach((b, idx) => b.rank = idx + 1)\<close>.\<close>

definition assign_ranks :: "BottleneckDetection list \<Rightarrow> BottleneckDetection list" where
  "assign_ranks bs = map (\<lambda>(b, idx). b\<lparr>rank := idx + 1\<rparr>) (zip bs [0 ..< length bs])"

definition global_statistics :: "(string \<times> DepartmentAnalysis) list \<Rightarrow> Statistics" where
  "global_statistics deptAnalysis =
     calculateStatistics (concat (map (\<lambda>(k, analysis). times analysis) deptAnalysis))"

definition volume_statistics :: "(string \<times> DepartmentAnalysis) list \<Rightarrow> Statistics" where
  "volume_statistics deptAnalysis =
     calculateStatistics (map (\<lambda>(k, analysis). real (patientVolume analysis)) deptAnalysis)"

definition detect_from :: "(string \<times> DepartmentAnalysis) list \<Rightarrow> BottleneckDetection list" where
  "detect_from deptAnalysis =
     (if length deptAnalysis = 0 then []
      else
        let globalStats = global_statistics deptAnalysis;
            volumeStats = volume_statistics deptAnalysis;
            bottlenecks = List.map_filter (assess_department globalStats volumeStats) deptAnalysis
        in assign_ranks
             (sort_cmp (\<lambda>a b. jsub (b_overallImpactScore b) (b_overallImpactScore a))
                bottlenecks))"

text \<open>\<open>detectBottlenecks\<close> on the journeys that \<open>getPatientJourneys(filters)\<close> returned.\<close>

definition detectBottlenecks :: "PatientJourney list \<Rightarrow> BottleneckDetection list" where
  "detectBottlenecks journeys = detect_from (analyzeDepartmentFlows journeys)"


section \<open>Delay propagation (bottleneckDetectionService.ts)\<close>

text \<open>
  The map of \<open>getDelayPropagationMap\<close> is keyed by the two department names joined by
  the arrow U+2192, and the key is split at the arrow again to name the edge. Strings are
  modelled by their UTF-8 bytes, in which the arrow is the three bytes E2 86 92 and occurs
  exactly where the character does.
\<close>

definition arrow :: string where
  "arrow = [CHR 0xE2, CHR 0x86, CHR 0x92]"

text \<open>\<open>key.split(arrow)\<close>: the parts between the occurrences of the arrow, found from the
  left.\<close>

fun split_arrow :: "string \<Rightarrow> string list" where
  "split_arrow [] = [[]]"
| "split_arrow (c # cs) =
     (if take 3 (c # cs) = arrow then [] # split_arrow (drop 2 cs)
      else (case split_arrow cs of
              p # ps \<Rightarrow> (c # p) # ps
            | [] \<Rightarrow> [[c]]))"

record PropEntry =
  totalDelay :: real
  count :: nat

record DelayPropagation =
  sourceDepartment :: string
  targetDepartment :: string
  avgDelayTransferred :: real
  prop_patientsAffected :: nat
  propagationStrength :: real

text \<open>The pairs \<open>(stages[i], stages[i + 1])\<close> for \<open>i < stages.length - 1\<close>.\<close>

fun consecutive :: "'a list \<Rightarrow> ('a \<times> 'a) list" where
  "consecutive (x # y # rest) = (x, y) # consecutive (y # rest)"
| "consecutive [x] = []"
| "consecutive [] = []"

definition record_wait ::
  "(string \<times> PropEntry) list \<Rightarrow> Stage \<times> Stage \<Rightarrow> (string \<times> PropEntry) list" where
  "record_wait propagationMap pair =
     (case pair of (current, next) \<Rightarrow>
        let waitTime = minutes_between (exitTime current) (entryTime next) in
        if waitTime > 5 then
          let key = department current @ arrow @ department next;
              prop = (case map_of propagationMap key of
                        Some p \<Rightarrow> p
                      | None \<Rightarrow> \<lparr>totalDelay = 0, count = 0\<rparr>)
          in omap_set propagationMap key
               \<lparr>totalDelay = totalDelay prop + waitTime, count = count prop + 1\<rparr>
        else propagationMap)"

definition propagation_map :: "PatientJourney list \<Rightarrow> (string \<times> PropEntry) list" where
  "propagation_map journeys =
     foldl (\<lambda>propagationMap journey.
              foldl record_wait propagationMap (consecutive (stages journey)))
       [] journeys"

text \<open>
  The edge of one entry. Every key of the map contains an arrow, so its split has at
  least two parts and the destructuring \<open>[source, target]\<close> finds both; the count of
  an entry is at least 1.
\<close>

definition make_propagation :: "string \<times> PropEntry \<Rightarrow> DelayPropagation" where
  "make_propagation entry =
     (case entry of (key, data) \<Rightarrow>
        let parts = split_arrow key;
            avgDelay = totalDelay data / real (count data);
            strength = min ((avgDelay / 60) * 100) 100
        in \<lparr>sourceDepartment = parts ! 0,
            targetDepartment = parts ! 1,
            avgDelayTransferred = js_round avgDelay,
            prop_patientsAffected = count data,
            propagationStrength = round1 strength\<rparr>)"

definition getDelayPropagationMap :: "PatientJourney list \<Rightarrow> DelayPropagation list" where
  "getDelayPropagationMap journeys =
     sort_key (\<lambda>p. - propagationStrength p) (map make_propagation (propagation_map journeys))"

text \<open>
  The words of the specification: the waits that count are those above 5 minutes, each
  with its source and target unit; an edge aggregates the waits of its pair.
\<close>

fun has_arrow :: "string \<Rightarrow> bool" where
  "has_arrow [] = False"
| "has_arrow (c # cs) = (take 3 (c # cs) = arrow \<or> has_arrow cs)"

definition counted_waits :: "PatientJourney list \<Rightarrow> (string \<times> string \<times> real) list" where
  "counted_waits journeys =
     concat (map (\<lambda>journey.
        filter (\<lambda>(s, t, w). w > 5)
          (map (\<lambda>(current, next).
                  (department current, department next,
                   minutes_between (exitTime current) (entryTime next)))
             (consecutive (stages journey))))
      journeys)"

definition waits_between :: "string \<Rightarrow> string \<Rightarrow> (string \<times> string \<times> real) list \<Rightarrow> real list" where
  "waits_between s t ws = map (\<lambda>(s', t', w). w) (filter (\<lambda>(s', t', w). s' = s \<and> t' = t) ws)"


section \<open>Patient records (types)\<close>

text \<open>
  Of a \<open>JourneyStep\<close> and a \<open>PatientRecord\<close> the fields that the two predictors read. The
  dates are the parsed timestamps in milliseconds, \<open>None\<close> for a null or empty string;
  \<open>journeySteps\<close> is \<open>None\<close> when the field is undefined.
\<close>

record JourneyStep =
  departmentId :: string
  waitTimeMinutes :: real

record PatientRecord =
  record_id :: string
  record_patientId :: string
  admissionDate :: "int option"
  dischargeDate :: "int option"
  currentDepartment :: "string option"
  journeySteps :: "JourneyStep list option"

datatype RiskLevel = Low_risk | Medium_risk | High_risk | Critical_risk


section \<open>Readmission risk (dataService.ts)\<close>

record ReadmissionFactor =
  factor :: string
  impact :: int

text \<open>
  The returned risk without its date and its texts: \<open>estimatedReadmissionDate\<close>,
  \<open>preventionRecommendations\<close> and the \<open>description\<close> of a factor are formatted from the
  values kept here.
\<close>

record ReadmissionRisk =
  risk_patientId :: string
  riskScore :: int
  riskLevel :: RiskLevel
  contributingFactors :: "ReadmissionFactor list"
  daysUntilReadmission :: nat
  delayInfluence :: int
  departmentRisk :: "string list"

definition calculateLengthOfStay :: "int \<Rightarrow> int \<Rightarrow> real" where
  "calculateLengthOfStay admission discharge =
     real_of_int (discharge - admission) / (1000 * 60 * 60 * 24)"

text \<open>\<open>step.waitTimeMinutes || 0\<close> is the wait itself for a finite number.\<close>

definition calculateOperationalDelayScore :: "PatientRecord \<Rightarrow> int" where
  "calculateOperationalDelayScore record =
     (case journeySteps record of
        None \<Rightarrow> 0
      | Some steps \<Rightarrow>
          if length steps = 0 then 0
          else
            let totalWaitTime = foldl (\<lambda>sum step. sum + waitTimeMinutes step) 0 steps;
                avgWaitPerStep = totalWaitTime / real (length steps)
            in if avgWaitPerStep > 120 then 30
               else if avgWaitPerStep > 90 then 20
               else if avgWaitPerStep > 60 then 10
               else 0)"

definition identifyHighRiskDepartments :: "PatientRecord \<Rightarrow> string list" where
  "identifyHighRiskDepartments record =
     (case journeySteps record of
        None \<Rightarrow> []
      | Some steps \<Rightarrow>
          foldl (\<lambda>highRiskDepts step.
                   if waitTimeMinutes step > 120 \<and> departmentId step \<notin> set highRiskDepts
                   then highRiskDepts @ [departmentId step] else highRiskDepts)
            [] steps)"

text \<open>
  \<open>new Date(t).getDay()\<close>, 0 for Sunday: the day of the week in local time, for a zone
  \<open>tz\<close> milliseconds ahead of UTC (1 January 1970 was a Thursday).
\<close>

definition getDay :: "int \<Rightarrow> int \<Rightarrow> int" where
  "getDay tz t = ((t + tz) div 86400000 + 4) mod 7"

text \<open>The visits of the same patient, other than this record, admitted within the 90
  days before this admission.\<close>

definition recentVisits :: "PatientRecord \<Rightarrow> PatientRecord list \<Rightarrow> PatientRecord list" where
  "recentVisits record historicalRecords =
     (let patientHistory =
            filter (\<lambda>r. record_patientId r = record_patientId record
                        \<and> record_id r \<noteq> record_id record) historicalRecords
      in if length patientHistory > 0 then
           filter (\<lambda>r. case (admissionDate r, admissionDate record) of
                          (Some ra, Some a) \<Rightarrow>
                            (let daysDiff = real_of_int (a - ra) / (1000 * 60 * 60 * 24)
                             in daysDiff > 0 \<and> daysDiff < 90)
                        | _ \<Rightarrow> False) patientHistory
         else [])"

text \<open>
  \<open>predictReadmissionRisk\<close>. The pair (score, factors) is threaded through the five
  blocks of the source in their order; each block adds its impact and pushes its factor.
\<close>

definition add_factor :: "string \<Rightarrow> int \<Rightarrow> int \<times> ReadmissionFactor list
    \<Rightarrow> int \<times> ReadmissionFactor list" where
  "add_factor nm imp st =
     (case st of (totalRiskScore, factors) \<Rightarrow>
        (totalRiskScore + imp, factors @ [\<lparr>factor = nm, impact = imp\<rparr>]))"

definition score_factors ::
  "int \<Rightarrow> PatientRecord \<Rightarrow> PatientRecord list \<Rightarrow> int \<times> ReadmissionFactor list" where
  "score_factors tz record historicalRecords =
     (let lengthOfStay =
            (case (admissionDate record, dischargeDate record) of
               (Some a, Some d) \<Rightarrow> calculateLengthOfStay a d
             | _ \<Rightarrow> 0);
          st0 = (0, []);
          st1 = (if lengthOfStay > 0 then
                   if lengthOfStay < 2 then add_factor ''Short Length of Stay'' 25 st0
                   else if lengthOfStay > 14 then add_factor ''Extended Length of Stay'' 20 st0
                   else st0
                 else st0);
          operationalDelayScore = calculateOperationalDelayScore record;
          st2 = (if operationalDelayScore > 0
                 then add_factor ''Operational Delays'' operationalDelayScore st1 else st1);
          st3 = (case journeySteps record of
                   None \<Rightarrow> st2
                 | Some steps \<Rightarrow>
                     if length steps > 5
                     then add_factor ''Multiple Department Transfers'' 15 st2 else st2);
          recent = recentVisits record historicalRecords;
          st4 = (if length recent > 0
                 then add_factor ''Recent Hospital Visits'' (min 30 (int (length recent) * 15)) st3
                 else st3);
          st5 = (case admissionDate record of
                   None \<Rightarrow> st4
                 | Some a \<Rightarrow>
                     let dayOfWeek = getDay tz a in
                     if dayOfWeek = 5 \<or> dayOfWeek = 6
                     then add_factor ''Weekend Discharge'' 10 st4 else st4)
      in st5)"

definition risk_level_of :: "int \<Rightarrow> RiskLevel" where
  "risk_level_of totalRiskScore =
     (if totalRiskScore \<ge> 70 then Critical_risk
      else if totalRiskScore \<ge> 50 then High_risk
      else if totalRiskScore \<ge> 30 then Medium_risk
      else Low_risk)"

definition predictReadmissionRisk ::
  "int \<Rightarrow> PatientRecord \<Rightarrow> PatientRecord list \<Rightarrow> ReadmissionRisk" where
  "predictReadmissionRisk tz record historicalRecords =
     (case score_factors tz record historicalRecords of (totalRiskScore, factors) \<Rightarrow>
        let riskLevel = risk_level_of totalRiskScore
        in \<lparr>risk_patientId = record_patientId record,
            riskScore = totalRiskScore,
            riskLevel = riskLevel,
            contributingFactors = sort_key (\<lambda>f. - impact f) factors,
            daysUntilReadmission = (if riskLevel = Critical_risk then 7
                                    else if riskLevel = High_risk then 14
                                    else if riskLevel = Medium_risk then 30 else 90),
            delayInfluence = calculateOperationalDelayScore record,
            departmentRisk = identifyHighRiskDepartments record\<rparr>)"

text \<open>The score as the specification words it: the short-stay points for every length
  of stay below two days, and the weekend points by the day of the discharge.\<close>

definition average_wait :: "PatientRecord \<Rightarrow> real" where
  "average_wait record =
     (case journeySteps record of
        None \<Rightarrow> 0
      | Some steps \<Rightarrow> if steps = [] then 0
                      else sum_list (map waitTimeMinutes steps) / real (length steps))"

definition transitions :: "PatientRecord \<Rightarrow> nat" where
  "transitions record = (case journeySteps record of None \<Rightarrow> 0 | Some steps \<Rightarrow> length steps)"

definition wait_points :: "PatientRecord \<Rightarrow> int" where
  "wait_points record =
     (if average_wait record > 120 then 30
      else if average_wait record > 90 then 20
      else if average_wait record > 60 then 10 else 0)"

definition is_weekend :: "int \<Rightarrow> int \<Rightarrow> bool" where
  "is_weekend tz t = (getDay tz t = 5 \<or> getDay tz t = 6)"

definition prior_admissions :: "PatientRecord \<Rightarrow> PatientRecord list \<Rightarrow> PatientRecord list" where
  "prior_admissions record historicalRecords =
     filter (\<lambda>r. record_patientId r = record_patientId record
                 \<and> record_id r \<noteq> record_id record
                 \<and> (case (admissionDate r, admissionDate record) of
                        (Some ra, Some a) \<Rightarrow> ra < a \<and> a - ra < 90 * 86400000
                      | _ \<Rightarrow> False))
       historicalRecords"

definition spec_risk_score :: "int \<Rightarrow> PatientRecord \<Rightarrow> PatientRecord list \<Rightarrow> int" where
  "spec_risk_score tz record historicalRecords =
     (let los = calculateLengthOfStay (the (admissionDate record)) (the (dischargeDate record))
      in (if los < 2 then 25 else if los > 14 then 20 else 0)
         + wait_points record
         + (if transitions record > 5 then 15 else 0)
         + min 30 (15 * int (length (prior_admissions record historicalRecords)))
         + (if is_weekend tz (the (dischargeDate record)) then 10 else 0))"

text \<open>A patient admitted and discharged at the same instant, Thursday 1 January 1970,
  with no journey steps; and a patient admitted on a Monday for 15 days whose two steps
  waited 150 minutes each.\<close>

definition same_day_record :: PatientRecord where
  "same_day_record =
     \<lparr>record_id = ''r1'', record_patientId = ''p1'', admissionDate = Some 0,
      dischargeDate = Some 0, currentDepartment = None, journeySteps = None\<rparr>"

definition long_stay_record :: PatientRecord where
  "long_stay_record =
     \<lparr>record_id = ''r2'', record_patientId = ''p2'', admissionDate = Some 345600000,
      dischargeDate = Some 1641600000, currentDepartment = None,
      journeySteps = Some [\<lparr>departmentId = ''d1'', waitTimeMinutes = 150\<rparr>,
                           \<lparr>departmentId = ''d2'', waitTimeMinutes = 150\<rparr>]\<rparr>"


section \<open>Per-unit bottleneck prediction (predictiveAnalytics)\<close>

text \<open>
  The per-department accumulator of \<open>predictBottlenecks\<close>. Its \<open>avgWaitTime\<close> is never
  written after creation; its \<open>peakHours\<close> feed only the pattern and recommendation
  texts and are left out with them, as are the department id (a re-spelling of the
  name) and the predicted date (the clock plus \<open>daysUntil\<close>).
\<close>

record DeptMetrics =
  totalPatients :: nat
  delays :: "real list"

record BottleneckPrediction =
  pred_departmentName :: string
  pred_riskLevel :: RiskLevel
  probability :: real
  expectedImpact :: real
  daysUntil :: nat

definition add_record ::
  "(string \<times> DeptMetrics) list \<Rightarrow> PatientRecord \<Rightarrow> (string \<times> DeptMetrics) list" where
  "add_record departmentMetrics record =
     (if truthy (currentDepartment record) then
        let dept = the (currentDepartment record);
            metrics0 = (case map_of departmentMetrics dept of
                          Some m \<Rightarrow> m
                        | None \<Rightarrow> \<lparr>totalPatients = 0, delays = []\<rparr>);
            metrics1 = metrics0\<lparr>totalPatients := totalPatients metrics0 + 1\<rparr>;
            metrics2 =
              (case journeySteps record of
                 None \<Rightarrow> metrics1
               | Some steps \<Rightarrow>
                   metrics1\<lparr>delays := delays metrics1
                     @ map waitTimeMinutes (filter (\<lambda>step. waitTimeMinutes step > 60) steps)\<rparr>)
        in omap_set departmentMetrics dept metrics2
      else departmentMetrics)"

definition department_metrics :: "PatientRecord list \<Rightarrow> (string \<times> DeptMetrics) list" where
  "department_metrics records = foldl add_record [] records"

definition avgDelay_of :: "DeptMetrics \<Rightarrow> real" where
  "avgDelay_of metrics =
     (if length (delays metrics) > 0
      then foldl (\<lambda>sum d. sum + d) 0 (delays metrics) / real (length (delays metrics))
      else 0)"

text \<open>\<open>totalPatients\<close> is at least 1 for every department of the map, which is created
  by the record that first counts.\<close>

definition delayFrequency_of :: "DeptMetrics \<Rightarrow> real" where
  "delayFrequency_of metrics = real (length (delays metrics)) / real (totalPatients metrics)"

definition predict_department :: "string \<times> DeptMetrics \<Rightarrow> BottleneckPrediction" where
  "predict_department entry =
     (case entry of (deptName, metrics) \<Rightarrow>
        let avgDelay = avgDelay_of metrics;
            delayFrequency = delayFrequency_of metrics;
            (riskLevel, probability) =
              (if delayFrequency > 0.3 \<and> avgDelay > 120 then (Critical_risk, 0.85)
               else if delayFrequency > 0.2 \<or> avgDelay > 90 then (High_risk, 0.65)
               else if delayFrequency > 0.1 \<or> avgDelay > 60 then (Medium_risk, 0.40)
               else (Low_risk, 0.15));
            daysUntil = (if riskLevel = Critical_risk then 3
                         else if riskLevel = High_risk then 7
                         else if riskLevel = Medium_risk then 14 else 30)
        in \<lparr>pred_departmentName = deptName, pred_riskLevel = riskLevel,
            probability = probability,
            expectedImpact = js_round (avgDelay * delayFrequency),
            daysUntil = daysUntil\<rparr>)"

definition predictBottlenecks :: "PatientRecord list \<Rightarrow> BottleneckPrediction list" where
  "predictBottlenecks records =
     sort_key (\<lambda>p. - probability p) (map predict_department (department_metrics records))"

text \<open>The tiers as the specification words them (frequency thresholds inclusive), and
  as amended (all thresholds exclusive).\<close>

definition claimed_tier :: "real \<Rightarrow> real \<Rightarrow> RiskLevel \<times> real" where
  "claimed_tier freq avg =
     (if freq \<ge> 0.3 \<and> avg > 120 then (Critical_risk, 0.85)
      else if freq \<ge> 0.2 \<or> avg > 90 then (High_risk, 0.65)
      else if freq \<ge> 0.1 \<or> avg > 60 then (Medium_risk, 0.40)
      else (Low_risk, 0.15))"

definition strict_tier :: "real \<Rightarrow> real \<Rightarrow> RiskLevel \<times> real" where
  "strict_tier freq avg =
     (if freq > 0.3 \<and> avg > 120 then (Critical_risk, 0.85)
      else if freq > 0.2 \<or> avg > 90 then (High_risk, 0.65)
      else if freq > 0.1 \<or> avg > 60 then (Medium_risk, 0.40)
      else (Low_risk, 0.15))"

definition frequency :: "DeptMetrics \<Rightarrow> real" where
  "frequency metrics = real (length (delays metrics)) / real (totalPatients metrics)"

definition average_delay :: "DeptMetrics \<Rightarrow> real" where
  "average_delay metrics =
     (if delays metrics = [] then 0
      else sum_list (delays metrics) / real (length (delays metrics)))"

text \<open>Ten patients currently in the ICU; the steps of three of them waited 130 minutes.\<close>

definition icu_patient :: "string \<Rightarrow> real list \<Rightarrow> PatientRecord" where
  "icu_patient pid waits =
     \<lparr>record_id = pid, record_patientId = pid, admissionDate = None, dischargeDate = None,
      currentDepartment = Some ''ICU'',
      journeySteps = Some (map (\<lambda>w. \<lparr>departmentId = ''icu'', waitTimeMinutes = w\<rparr>) waits)\<rparr>"

definition icu_records :: "PatientRecord list" where
  "icu_records =
     [icu_patient ''a'' [130], icu_patient ''b'' [130], icu_patient ''c'' [130],
      icu_patient ''d'' [20], icu_patient ''e'' [], icu_patient ''f'' [],
      icu_patient ''g'' [], icu_patient ''h'' [], icu_patient ''i'' [],
      icu_patient ''j'' []]"


section \<open>Intervention simulation (simulationService)\<close>

text \<open>
  The declared type of \<open>intervention.type\<close> is the union of the three strings
  \<open>staff\<close>, \<open>beds\<close> and \<open>processing_time\<close>; at run time it is a string, and the
  \<open>switch\<close> statements have a branch for every other string.
\<close>

record SimulationIntervention =
  itype :: string
  target_department :: string
  ivalue :: real

record SimulationMetrics =
  averageLOS :: jsnum
  bedUtilization :: jsnum
  avgProcessingTime :: jsnum
  readmissionRisk :: jsnum
  throughput :: jsnum

record Improvements =
  losReduction :: jsnum
  losReductionPercent :: jsnum
  bedUtilizationChange :: jsnum
  readmissionRiskReduction :: jsnum
  patientsImpacted :: jsnum

record CostBenefit =
  estimatedCost :: real
  impactScore :: jsnum
  roi :: jsnum

record SimulationResult =
  res_intervention :: SimulationIntervention
  res_baseline :: SimulationMetrics
  res_projected :: SimulationMetrics
  res_improvements :: Improvements
  res_costBenefit :: CostBenefit

definition projectStaffIntervention ::
  "SimulationMetrics \<Rightarrow> real \<Rightarrow> real \<Rightarrow> SimulationMetrics" where
  "projectStaffIntervention baseline staffIncrease currentStaff =
     (let staffMultiplier = jdiv currentStaff (currentStaff + staffIncrease);
          newProcessingTime = jmul (avgProcessingTime baseline) staffMultiplier;
          processingReduction = jsub (avgProcessingTime baseline) newProcessingTime;
          losReduction = jscale (jquot processingReduction (Fin 60)) 0.8;
          newLOS = jmax (Fin 0.1) (jsub (averageLOS baseline) losReduction);
          bedUtilizationImprovement = jscale losReduction 5;
          newBedUtilization =
            jmax (Fin 0) (jsub (bedUtilization baseline) bedUtilizationImprovement);
          readmissionReduction =
            jscale (jmul (jquot processingReduction (avgProcessingTime baseline))
                      (readmissionRisk baseline)) 0.3;
          newReadmissionRisk =
            jmax (Fin 0) (jsub (readmissionRisk baseline) readmissionReduction);
          throughputIncrease =
            jfloor (jmul (throughput baseline)
                      (jadd (Fin 1) (jscale (jdiv staffIncrease currentStaff) 0.5)))
      in \<lparr>averageLOS = jround1 newLOS,
          bedUtilization = jround1 newBedUtilization,
          avgProcessingTime = jround newProcessingTime,
          readmissionRisk = jround1 newReadmissionRisk,
          throughput = throughputIncrease\<rparr>)"

definition projectBedsIntervention ::
  "SimulationMetrics \<Rightarrow> real \<Rightarrow> real \<Rightarrow> SimulationMetrics" where
  "projectBedsIntervention baseline bedIncrease currentBeds =
     (let newBedCapacity = currentBeds + bedIncrease;
          capacityIncrease = jdiv bedIncrease currentBeds;
          newBedUtilization = jmul (bedUtilization baseline) (jdiv currentBeds newBedCapacity);
          waitTimeReduction = jmin (jscale capacityIncrease 0.3) (Fin 0.5);
          losReduction = jscale (jmul (averageLOS baseline) waitTimeReduction) 0.4;
          newLOS = jmax (Fin 0.1) (jsub (averageLOS baseline) losReduction);
          newProcessingTime =
            jmul (avgProcessingTime baseline) (jsub (Fin 1) (jscale waitTimeReduction 0.2));
          readmissionReduction = jscale (jmul waitTimeReduction (readmissionRisk baseline)) 0.2;
          newReadmissionRisk =
            jmax (Fin 0) (jsub (readmissionRisk baseline) readmissionReduction);
          throughputIncrease =
            jfloor (jmul (throughput baseline) (jadd (Fin 1) (jscale capacityIncrease 0.3)))
      in \<lparr>averageLOS = jround1 newLOS,
          bedUtilization = jround1 newBedUtilization,
          avgProcessingTime = jround newProcessingTime,
          readmissionRisk = jround1 newReadmissionRisk,
          throughput = throughputIncrease\<rparr>)"

definition projectProcessingTimeIntervention ::
  "SimulationMetrics \<Rightarrow> real \<Rightarrow> SimulationMetrics" where
  "projectProcessingTimeIntervention baseline timeReduction =
     (let newProcessingTime =
            jmax (Fin 5) (jsub (avgProcessingTime baseline) (Fin timeReduction));
          reductionRatio = jquot (Fin timeReduction) (avgProcessingTime baseline);
          losReduction = jscale (jmul (averageLOS baseline) reductionRatio) 0.6;
          newLOS = jmax (Fin 0.1) (jsub (averageLOS baseline) losReduction);
          bedUtilizationImprovement =
            jscale (jmul reductionRatio (bedUtilization baseline)) 0.4;
          newBedUtilization =
            jmax (Fin 0) (jsub (bedUtilization baseline) bedUtilizationImprovement);
          readmissionReduction = jscale (jmul reductionRatio (readmissionRisk baseline)) 0.4;
          newReadmissionRisk =
            jmax (Fin 0) (jsub (readmissionRisk baseline) readmissionReduction);
          throughputIncrease =
            jfloor (jmul (throughput baseline) (jadd (Fin 1) (jscale reductionRatio 0.7)))
      in \<lparr>averageLOS = jround1 newLOS,
          bedUtilization = jround1 newBedUtilization,
          avgProcessingTime = jround newProcessingTime,
          readmissionRisk = jround1 newReadmissionRisk,
          throughput = throughputIncrease\<rparr>)"

definition calculateCostBenefit :: "SimulationIntervention \<Rightarrow> Improvements \<Rightarrow> CostBenefit" where
  "calculateCostBenefit intervention improvements =
     (let estimatedCost =
            (if itype intervention = ''staff'' then ivalue intervention * 75000
             else if itype intervention = ''beds'' then ivalue intervention * 50000
             else if itype intervention = ''processing_time'' then ivalue intervention * 10000
             else 0);
          impactScore =
            jadd (jadd (jscale (losReductionPercent improvements) 0.4)
                    (jscale (jabs (bedUtilizationChange improvements)) 0.3))
              (jscale (readmissionRiskReduction improvements) 0.3);
          roi = (if estimatedCost > 0
                 then jquot (jscale (jmul impactScore (patientsImpacted improvements)) 1000)
                        (Fin estimatedCost)
                 else Fin 0)
      in \<lparr>estimatedCost = estimatedCost,
          impactScore = jround1 impactScore,
          roi = jround2 roi\<rparr>)"

text \<open>\<open>x || d\<close> on an optional number: null and 0 are falsy.\<close>

definition num_or :: "real option \<Rightarrow> real \<Rightarrow> real" where
  "num_or x d = (case x of None \<Rightarrow> d | Some n \<Rightarrow> if n = 0 then d else n)"

text \<open>
  \<open>simulateIntervention\<close> after its two reads: \<open>baseline\<close> is the value of
  \<open>calculateBaselineMetrics\<close>, \<open>staff_count\<close> and \<open>bed_capacity\<close> are the fields of the
  department row (\<open>None\<close> when the row or the field is missing). The result is a sum whose
  left side stands for an error raised to the caller; the source has no \<open>throw\<close>, and
  its \<open>default\<close> branch takes the baseline as the projection.
\<close>

definition simulateIntervention ::
  "SimulationIntervention \<Rightarrow> SimulationMetrics \<Rightarrow> real option \<Rightarrow> real option
     \<Rightarrow> string + SimulationResult" where
  "simulateIntervention intervention baseline staff_count bed_capacity =
     (let currentStaff = num_or staff_count 10;
          currentBeds = num_or bed_capacity 20;
          projected =
            (if itype intervention = ''staff''
             then projectStaffIntervention baseline (ivalue intervention) currentStaff
             else if itype intervention = ''beds''
             then projectBedsIntervention baseline (ivalue intervention) currentBeds
             else if itype intervention = ''processing_time''
             then projectProcessingTimeIntervention baseline (ivalue intervention)
             else baseline);
          losReduction = jsub (averageLOS baseline) (averageLOS projected);
          losReductionPercent =
            (if jgt (averageLOS baseline) (Fin 0)
             then jscale (jquot losReduction (averageLOS baseline)) 100
             else Fin 0);
          bedUtilizationChange = jsub (bedUtilization baseline) (bedUtilization projected);
          readmissionRiskReduction =
            jsub (readmissionRisk baseline) (readmissionRisk projected);
          improvements =
            \<lparr>losReduction = jround1 losReduction,
             losReductionPercent = jround1 losReductionPercent,
             bedUtilizationChange = jround1 bedUtilizationChange,
             readmissionRiskReduction = jround1 readmissionRiskReduction,
             patientsImpacted = throughput projected\<rparr>;
          costBenefit = calculateCostBenefit intervention improvements
      in Inr \<lparr>res_intervention = intervention, res_baseline = baseline,
              res_projected = projected, res_improvements = improvements,
              res_costBenefit = costBenefit\<rparr>)"

text \<open>An intervention of an undeclared type on a department with finite baseline
  metrics.\<close>

definition overtime_intervention :: SimulationIntervention where
  "overtime_intervention = \<lparr>itype = ''overtime'', target_department = ''ICU'', ivalue = 2\<rparr>"

definition icu_baseline :: SimulationMetrics where
  "icu_baseline =
     \<lparr>averageLOS = Fin 4, bedUtilization = Fin 80, avgProcessingTime = Fin 120,
      readmissionRisk = Fin 16, throughput = Fin 50\<rparr>"


section \<open>Example inputs\<close>

text \<open>
  One patient with a stay in Radiology from minute 10 to minute 40, an earlier stay in the
  ER from minute 0 to minute 5, and a row whose exit precedes its entry.
\<close>

definition radiology_logs :: "FlowLog list" where
  "radiology_logs =
     [\<lparr>log_patient_id = Some ''p1'', log_department = Some ''Radiology'',
        entry_time = Some 600000, exit_time = Some 2400000\<rparr>,
      \<lparr>log_patient_id = Some ''p1'', log_department = Some ''ER'',
        entry_time = Some 0, exit_time = Some 300000\<rparr>,
      \<lparr>log_patient_id = Some ''p1'', log_department = None,
        entry_time = Some 900000, exit_time = Some 840000\<rparr>]"

text \<open>
  Three patients pass through Triage with entry and exit at the same instant (duration 0)
  and enter the Ward ten minutes later for ten minutes; two more patients have a
  ten-minute stay in the Ward only.
\<close>

definition triage_visit :: "string \<Rightarrow> FlowLog list" where
  "triage_visit pid =
     [\<lparr>log_patient_id = Some pid, log_department = Some ''Triage'',
        entry_time = Some 0, exit_time = Some 0\<rparr>,
      \<lparr>log_patient_id = Some pid, log_department = Some ''Ward'',
        entry_time = Some 600000, exit_time = Some 1200000\<rparr>]"

definition ward_visit :: "string \<Rightarrow> FlowLog list" where
  "ward_visit pid =
     [\<lparr>log_patient_id = Some pid, log_department = Some ''Ward'',
        entry_time = Some 0, exit_time = Some 600000\<rparr>]"

definition zero_stay_logs :: "FlowLog list" where
  "zero_stay_logs =
     triage_visit ''p1'' @ triage_visit ''p2'' @ triage_visit ''p3''
       @ ward_visit ''p4'' @ ward_visit ''p5''"

text \<open>
  Three patients stay ten minutes in the Lab, wait two minutes, stay ten minutes in
  Imaging, wait five minutes and stay ten minutes in the Ward; three more patients have
  a ten-minute stay in the Ward only.
\<close>

definition cascade_visit :: "string \<Rightarrow> FlowLog list" where
  "cascade_visit pid =
     [\<lparr>log_patient_id = Some pid, log_department = Some ''Lab'',
        entry_time = Some 0, exit_time = Some 600000\<rparr>,
      \<lparr>log_patient_id = Some pid, log_department = Some ''Imaging'',
        entry_time = Some 720000, exit_time = Some 1320000\<rparr>,
      \<lparr>log_patient_id = Some pid, log_department = Some ''Ward'',
        entry_time = Some 1620000, exit_time = Some 2220000\<rparr>]"

definition cascade_logs :: "FlowLog list" where
  "cascade_logs =
     cascade_visit ''p1'' @ cascade_visit ''p2'' @ cascade_visit ''p3''
       @ ward_visit ''p4'' @ ward_visit ''p5'' @ ward_visit ''p6''"

text \<open>The analysis of Triage for the zero-stay example.\<close>

definition triage_analysis :: DepartmentAnalysis where
  "triage_analysis =
     \<lparr>name = ''Triage'', times = [0, 0, 0], patientVolume = 3,
      downstreamDelays = [(''Ward'', 30)], processingVariance = 0,
      expectedTime = 0, actualTime = 0\<rparr>"

text \<open>The analyses of the three departments of the cascade example.\<close>

definition lab_analysis :: DepartmentAnalysis where
  "lab_analysis =
     \<lparr>name = ''Lab'', times = [10, 10, 10], patientVolume = 3,
      downstreamDelays = [(''Imaging'', 6)], processingVariance = 0,
      expectedTime = 10, actualTime = 10\<rparr>"

definition imaging_analysis :: DepartmentAnalysis where
  "imaging_analysis =
     \<lparr>name = ''Imaging'', times = [10, 10, 10], patientVolume = 3,
      downstreamDelays = [(''Ward'', 15)], processingVariance = 0,
      expectedTime = 10, actualTime = 10\<rparr>"

definition ward_analysis :: DepartmentAnalysis where
  "ward_analysis =
     \<lparr>name = ''Ward'', times = [10, 10, 10, 10, 10, 10], patientVolume = 6,
      downstreamDelays = [], processingVariance = 0,
      expectedTime = 10, actualTime = 10\<rparr>"

text \<open>
  Two journeys. The first leaves Triage at minute 10, enters the Lab at minute 15 (a
  wait of 5 minutes), leaves it at minute 25 and enters Imaging at minute 31.5 (a wait
  of 6.5 minutes). The second leaves the Lab at minute 10 and enters Imaging at minute
  16 (a wait of 6 minutes).
\<close>

definition boundary_logs :: "FlowLog list" where
  "boundary_logs =
     [\<lparr>log_patient_id = Some ''p1'', log_department = Some ''Triage'',
        entry_time = Some 0, exit_time = Some 600000\<rparr>,
      \<lparr>log_patient_id = Some ''p1'', log_department = Some ''Lab'',
        entry_time = Some 900000, exit_time = Some 1500000\<rparr>,
      \<lparr>log_patient_id = Some ''p1'', log_department = Some ''Imaging'',
        entry_time = Some 1890000, exit_time = Some 2400000\<rparr>,
      \<lparr>log_patient_id = Some ''p2'', log_department = Some ''Lab'',
        entry_time = Some 0, exit_time = Some 600000\<rparr>,
      \<lparr>log_patient_id = Some ''p2'', log_department = Some ''Imaging'',
        entry_time = Some 960000, exit_time = Some 1500000\<rparr>]"


section \<open>Invariants and notions of the proofs\<close>

text \<open>The invariant of the reconstruction loop.\<close>

definition stage_ok :: "Stage \<Rightarrow> bool" where
  "stage_ok s = (0 \<le> duration s \<and> duration s = minutes_between (entryTime s) (exitTime s))"

definition journeys_ok :: "(string \<times> PatientJourney) list \<Rightarrow> bool" where
  "journeys_ok m = (\<forall>(k, j) \<in> set m. \<forall>s \<in> set (stages j). stage_ok s)"

text \<open>The number carried by a finite value.\<close>

fun fin_val :: "jsnum \<Rightarrow> real" where
  "fin_val (Fin a) = a"
| "fin_val x = 0"

text \<open>The samples of every department are non-negative.\<close>

definition times_ok :: "(string \<times> DepartmentAnalysis) list \<Rightarrow> bool" where
  "times_ok m = (\<forall>(k, a) \<in> set m. \<forall>t \<in> set (times a). 0 \<le> t)"

text \<open>The key and the wait of a pair of consecutive stages, the counted waits under a
  key, the pairs of all journeys in loop order, and the absence of the arrow from
  their names.\<close>

definition key_of :: "Stage \<times> Stage \<Rightarrow> string" where
  "key_of pair = department (fst pair) @ arrow @ department (snd pair)"

definition wait_of :: "Stage \<times> Stage \<Rightarrow> real" where
  "wait_of pair = minutes_between (exitTime (fst pair)) (entryTime (snd pair))"

definition waits_for_key :: "string \<Rightarrow> (Stage \<times> Stage) list \<Rightarrow> real list" where
  "waits_for_key k pairs = map wait_of (filter (\<lambda>p. wait_of p > 5 \<and> key_of p = k) pairs)"

definition all_pairs :: "PatientJourney list \<Rightarrow> (Stage \<times> Stage) list" where
  "all_pairs journeys = concat (map (\<lambda>journey. consecutive (stages journey)) journeys)"

definition trip :: "Stage \<times> Stage \<Rightarrow> string \<times> string \<times> real" where
  "trip p = (department (fst p), department (snd p), wait_of p)"

definition plain_names :: "(Stage \<times> Stage) list \<Rightarrow> bool" where
  "plain_names pairs =
     (\<forall>p \<in> set pairs. \<not> has_arrow (department (fst p)) \<and> \<not> has_arrow (department (snd p)))"


section \<open>Properties\<close>

lemma foldl_plus_sum_list:
  fixes f :: "'a \<Rightarrow> real"
  shows "foldl (\<lambda>s v. s + f v) a vals = a + (\<Sum>v\<leftarrow>vals. f v)"
  by (induction vals arbitrary: a) simp_all

lemma floor_half: "nat \<lfloor>real n / 2\<rfloor> = n div 2"
proof -
  have "real n / 2 = real_of_int (int n) / real_of_int 2" by simp
  then have "\<lfloor>real n / 2\<rfloor> = \<lfloor>real_of_int (int n) / real_of_int 2\<rfloor>" by (rule arg_cong)
  also have "\<dots> = int n div 2" by (rule floor_divide_of_int_eq)
  finally show ?thesis by (simp add: nat_div_distrib)
qed

lemma floor_quarter: "nat \<lfloor>real n * 0.25\<rfloor> = n div 4"
proof -
  have "real n * 0.25 = real_of_int (int n) / real_of_int 4" by simp
  then have "\<lfloor>real n * 0.25\<rfloor> = \<lfloor>real_of_int (int n) / real_of_int 4\<rfloor>" by (rule arg_cong)
  also have "\<dots> = int n div 4" by (rule floor_divide_of_int_eq)
  finally show ?thesis by (simp add: nat_div_distrib)
qed

lemma floor_three_quarters: "nat \<lfloor>real n * 0.75\<rfloor> = (3 * n) div 4"
proof -
  have "real n * 0.75 = real_of_int (int (3 * n)) / real_of_int 4" by simp
  then have "\<lfloor>real n * 0.75\<rfloor> = \<lfloor>real_of_int (int (3 * n)) / real_of_int 4\<rfloor>"
    by (rule arg_cong)
  also have "\<dots> = int (3 * n) div 4" by (rule floor_divide_of_int_eq)
  finally show ?thesis by (simp add: nat_div_distrib)
qed

lemma sqrt_2400_approx: "\<bar>sqrt 2400 - 49\<bar> < (5 / 100 :: real)"
proof -
  have lo: "(4895 / 100 :: real) < sqrt 2400"
    by (rule real_less_rsqrt) (simp add: power2_eq_square)
  have hi: "sqrt 2400 < (49 :: real)"
    by (rule real_less_lsqrt) simp_all
  from lo hi show ?thesis by simp
qed

text \<open>
  Claim C2. For an empty sample the profile is all zero. Otherwise, with \<open>n\<close> samples
  sorted ascending, the median is the sample at index \<open>n div 2\<close>, Q1 the sample at index
  \<open>n div 4\<close> (the floor of \<open>0.25 n\<close>), Q3 the sample at index \<open>3 n div 4\<close> (the floor of
  \<open>0.75 n\<close>), the IQR is their difference, the mean is the arithmetic mean, and the standard
  deviation is the square root of the population variance (divisor \<open>n\<close>). For the samples
  30, 90, 150 this gives median 90, mean 90, Q1 30, Q3 150, IQR 120 and a standard
  deviation within 0.05 of 49.0.
\<close>

theorem calculateStatistics_profile:
  "calculateStatistics [] = \<lparr>mean = 0, median = 0, q1 = 0, q3 = 0, iqr = 0, stdDev = 0\<rparr>
   \<and> (vals \<noteq> [] \<longrightarrow>
        sorted (sort vals) \<and> mset (sort vals) = mset vals
        \<and> median (calculateStatistics vals) = sort vals ! (length vals div 2)
        \<and> q1 (calculateStatistics vals) = sort vals ! (length vals div 4)
        \<and> q3 (calculateStatistics vals) = sort vals ! ((3 * length vals) div 4)
        \<and> iqr (calculateStatistics vals)
            = q3 (calculateStatistics vals) - q1 (calculateStatistics vals)
        \<and> mean (calculateStatistics vals) = spec_mean vals
        \<and> stdDev (calculateStatistics vals) = sqrt (spec_variance vals))
   \<and> median (calculateStatistics [30, 90, 150]) = 90
   \<and> mean (calculateStatistics [30, 90, 150]) = 90
   \<and> q1 (calculateStatistics [30, 90, 150]) = 30
   \<and> q3 (calculateStatistics [30, 90, 150]) = 150
   \<and> iqr (calculateStatistics [30, 90, 150]) = 120
   \<and> \<bar>stdDev (calculateStatistics [30, 90, 150]) - 49\<bar> < 5 / 100"
proof -
  have e: "calculateStatistics [] = \<lparr>mean = 0, median = 0, q1 = 0, q3 = 0, iqr = 0, stdDev = 0\<rparr>"
    by (simp add: calculateStatistics_def)
  have g: "vals \<noteq> [] \<longrightarrow>
        sorted (sort vals) \<and> mset (sort vals) = mset vals
        \<and> median (calculateStatistics vals) = sort vals ! (length vals div 2)
        \<and> q1 (calculateStatistics vals) = sort vals ! (length vals div 4)
        \<and> q3 (calculateStatistics vals) = sort vals ! ((3 * length vals) div 4)
        \<and> iqr (calculateStatistics vals)
            = q3 (calculateStatistics vals) - q1 (calculateStatistics vals)
        \<and> mean (calculateStatistics vals) = spec_mean vals
        \<and> stdDev (calculateStatistics vals) = sqrt (spec_variance vals)"
    unfolding calculateStatistics_def Let_def floor_half floor_quarter floor_three_quarters
      length_sort
    by (simp add: foldl_plus_sum_list [where f = "\<lambda>v. v", simplified]
        foldl_plus_sum_list spec_mean_def spec_variance_def)
  have s: "sort [30, 90, 150 :: real] = [30, 90, 150]" by simp
  have c: "calculateStatistics [30, 90, 150]
      = \<lparr>mean = 90, median = 90, q1 = 30, q3 = 150, iqr = 120, stdDev = sqrt 2400\<rparr>"
    unfolding calculateStatistics_def Let_def floor_half floor_quarter floor_three_quarters
      length_sort s
    by (simp add: power2_eq_square)
  show ?thesis
    using e g sqrt_2400_approx by (simp add: c)
qed

theorem calculateStatistics_profile_witness:
  "[10, 50, 20, 40 :: real] \<noteq> []
   \<and> median (calculateStatistics [10, 50, 20, 40]) = 40
   \<and> q1 (calculateStatistics [10, 50, 20, 40]) = 20
   \<and> q3 (calculateStatistics [10, 50, 20, 40]) = 50
   \<and> mean (calculateStatistics [10, 50, 20, 40]) = 30"
proof -
  have s: "sort [10, 50, 20, 40 :: real] = [10, 20, 40, 50]" by simp
  show ?thesis
    using calculateStatistics_profile [of "[10, 50, 20, 40]"]
    by (simp add: s spec_mean_def)
qed

subsection \<open>Journeys\<close>

lemma omap_set_mem:
  "(k', v') \<in> set (omap_set m k v) \<Longrightarrow> (k', v') \<in> set m \<or> (k' = k \<and> v' = v)"
  by (induction m) (auto split: if_splits)

lemma map_of_omap_set: "map_of (omap_set m k v) = (map_of m)(k \<mapsto> v)"
  by (induction m) (auto simp: fun_eq_iff)

lemma keys_omap_set:
  "map fst (omap_set m k v) = (if k \<in> set (map fst m) then map fst m else map fst m @ [k])"
proof (induction m)
  case Nil
  show ?case by simp
next
  case (Cons p m)
  obtain k' v' where p: "p = (k', v')" by (cases p)
  show ?case using Cons by (cases "k' = k") (simp_all add: p)
qed

lemma distinct_omap_set: "distinct (map fst m) \<Longrightarrow> distinct (map fst (omap_set m k v))"
  by (simp add: keys_omap_set)

lemma add_log_ok:
  assumes "journeys_ok m"
  shows "journeys_ok (add_log fdept m row)"
proof -
  have "\<forall>s \<in> set (stages j). stage_ok s" if "(k, j) \<in> set (add_log fdept m row)" for k j
  proof (cases "(k, j) \<in> set m")
    case True
    with assms show ?thesis by (auto simp: journeys_ok_def)
  next
    case False
    with that obtain pid e x where
      j: "j = (case map_of m pid of Some j \<Rightarrow> j
                | None \<Rightarrow> \<lparr>patientId = pid, totalDuration = 0, stages = []\<rparr>)
              \<lparr>stages := stages (case map_of m pid of Some j \<Rightarrow> j
                | None \<Rightarrow> \<lparr>patientId = pid, totalDuration = 0, stages = []\<rparr>)
                @ [\<lparr>department = str_or (log_department row) ''Unknown'',
                     category = categorizeDepartment (str_or (log_department row) ''Unknown''),
                     entryTime = e, exitTime = x, duration = minutes_between e x\<rparr>]\<rparr>"
      and d: "\<not> minutes_between e x < 0"
      by (auto simp: add_log_def Let_def split: if_splits dest!: omap_set_mem)
    have old: "\<forall>s \<in> set (stages (case map_of m pid of Some j \<Rightarrow> j
                | None \<Rightarrow> \<lparr>patientId = pid, totalDuration = 0, stages = []\<rparr>)). stage_ok s"
      using assms by (auto simp: journeys_ok_def split: option.splits dest!: map_of_SomeD)
    show ?thesis
      using old d by (auto simp: j stage_ok_def)
  qed
  then show ?thesis by (auto simp: journeys_ok_def)
qed

lemma foldl_add_log_ok: "journeys_ok m \<Longrightarrow> journeys_ok (foldl (add_log fdept) m logs)"
  by (induction logs arbitrary: m) (simp_all add: add_log_ok)

text \<open>
  Claim C9. Every journey the reconstructor returns has a total duration equal to the sum
  of its stage durations; its stages are in ascending order of entry time; and every
  stage has a non-negative duration, the minutes from its entry to its exit (rows with a
  negative duration were dropped).
\<close>

theorem journey_total_is_sum:
  "\<forall>j \<in> set (getPatientJourneys fdept flowLogs).
     totalDuration j = sum_list (map duration (stages j))
     \<and> sorted (map entryTime (stages j))
     \<and> (\<forall>s \<in> set (stages j).
           0 \<le> duration s \<and> duration s = minutes_between (entryTime s) (exitTime s))"
proof
  fix j
  assume "j \<in> set (getPatientJourneys fdept flowLogs)"
  then obtain k j0 where m: "(k, j0) \<in> set (foldl (add_log fdept) [] flowLogs)"
    and j: "j = finish_journey j0"
    by (auto simp: getPatientJourneys_def split: if_splits)
  have "journeys_ok (foldl (add_log fdept) [] flowLogs)"
    by (rule foldl_add_log_ok) (simp add: journeys_ok_def)
  with m have ok: "\<forall>s \<in> set (stages j0). stage_ok s"
    by (auto simp: journeys_ok_def)
  have "totalDuration j = sum_list (map duration (stages j))"
    by (simp add: j finish_journey_def Let_def foldl_plus_sum_list)
  moreover have "sorted (map entryTime (stages j))"
    by (simp add: j finish_journey_def Let_def)
  moreover have "\<forall>s \<in> set (stages j). stage_ok s"
    using ok by (simp add: j finish_journey_def Let_def)
  ultimately show "totalDuration j = sum_list (map duration (stages j))
     \<and> sorted (map entryTime (stages j))
     \<and> (\<forall>s \<in> set (stages j).
           0 \<le> duration s \<and> duration s = minutes_between (entryTime s) (exitTime s))"
    unfolding stage_ok_def by blast
qed


subsection \<open>Bottleneck classification\<close>

lemma mset_insort_cmp: "mset (insort_cmp c x ys) = add_mset x (mset ys)"
  by (induction ys) simp_all

lemma mset_sort_cmp: "mset (sort_cmp c xs) = mset xs"
  by (induction xs) (simp_all add: sort_cmp_def mset_insort_cmp)

lemma set_sort_cmp: "set (sort_cmp c xs) = set xs"
  using mset_sort_cmp [of c xs] by (metis set_mset_mset)

lemma length_sort_cmp: "length (sort_cmp c xs) = length xs"
  using mset_sort_cmp [of c xs] by (metis size_mset)

lemma length_assign_ranks: "length (assign_ranks bs) = length bs"
  by (simp add: assign_ranks_def)

lemma nth_assign_ranks: "i < length bs \<Longrightarrow> assign_ranks bs ! i = (bs ! i)\<lparr>rank := i + 1\<rparr>"
  by (simp add: assign_ranks_def)

lemma map_assign_ranks:
  assumes "\<And>b r. f (b\<lparr>rank := r\<rparr>) = f b"
  shows "map f (assign_ranks bs) = map f bs"
  by (rule nth_equalityI) (simp_all add: length_assign_ranks nth_assign_ranks assms)

lemma set_map_filter_Some: "set (List.map_filter g xs) = {y. \<exists>x \<in> set xs. g x = Some y}"
  by (induction xs) (auto simp: List.map_filter_def)

lemma keys_track_stage:
  "distinct (map fst m) \<Longrightarrow> distinct (map fst (track_stage m s nxt))"
  by (simp add: track_stage_def Let_def distinct_omap_set)

lemma keys_track_stages:
  "distinct (map fst m) \<Longrightarrow> distinct (map fst (track_stages m ss))"
  by (induction m ss rule: track_stages.induct) (simp_all add: keys_track_stage)

lemma keys_foldl_track:
  "distinct (map fst m) \<Longrightarrow>
   distinct (map fst (foldl (\<lambda>deptAnalysis journey. track_stages deptAnalysis (stages journey)) m js))"
  by (induction js arbitrary: m) (simp_all add: keys_track_stages)

lemma distinct_analyzeDepartmentFlows: "distinct (map fst (analyzeDepartmentFlows js))"
proof -
  have "map fst (analyzeDepartmentFlows js)
      = map fst (foldl (\<lambda>deptAnalysis journey. track_stages deptAnalysis (stages journey)) [] js)"
    by (simp add: analyzeDepartmentFlows_def case_prod_beta comp_def)
  then show ?thesis by (simp add: keys_foldl_track)
qed

lemma detect_from_fields:
  "(\<exists>b \<in> set (detect_from m). departmentName b = d \<and> bottleneckType b = t) \<longleftrightarrow>
   (\<exists>e \<in> set m. \<exists>b0. assess_department (global_statistics m) (volume_statistics m) e = Some b0
        \<and> departmentName b0 = d \<and> bottleneckType b0 = t)"
proof (cases "m = []")
  case True
  then show ?thesis by (simp add: detect_from_def)
next
  case False
  let ?bs = "List.map_filter (assess_department (global_statistics m) (volume_statistics m)) m"
  let ?f = "\<lambda>b. (departmentName b, bottleneckType b)"
  have "map ?f (detect_from m)
      = map ?f (sort_cmp (\<lambda>a b. jsub (b_overallImpactScore b) (b_overallImpactScore a)) ?bs)"
    using False by (simp add: detect_from_def Let_def map_assign_ranks)
  then have "set (map ?f (detect_from m)) = ?f ` set ?bs"
    by (simp add: set_sort_cmp)
  then have S: "?f ` set (detect_from m) = ?f ` set ?bs"
    by simp
  have "(\<exists>b \<in> set (detect_from m). departmentName b = d \<and> bottleneckType b = t)
      \<longleftrightarrow> (d, t) \<in> ?f ` set (detect_from m)"
    by force
  also have "\<dots> \<longleftrightarrow> (d, t) \<in> ?f ` set ?bs" by (simp only: S)
  also have "\<dots> \<longleftrightarrow> (\<exists>e \<in> set m. \<exists>b0.
        assess_department (global_statistics m) (volume_statistics m) e = Some b0
        \<and> departmentName b0 = d \<and> bottleneckType b0 = t)"
    unfolding set_map_filter_Some by force
  finally show ?thesis .
qed


lemma assess_department_Some:
  "assess_department g v (k, a) = Some b \<longleftrightarrow>
     3 \<le> length (times a) \<and>
     (\<exists>ty. determine_type (unit_metrics g v a) = Some ty \<and>
        b = \<lparr>departmentName = k, rank = 0, bottleneckType = ty,
              b_expectedTime = js_round (expectedTime a),
              b_actualTime = js_round (actualTime a),
              b_timeDeviation = round1 (timeDeviation (unit_metrics g v a)),
              b_zScore = round2 (zScore (unit_metrics g v a)),
              b_iqrPosition = round2 (iqrPosition (unit_metrics g v a)),
              b_varianceRatio = round2 (varianceRatio (unit_metrics g v a)),
              b_patientImpactScore = round1 (patientImpactScore (unit_metrics g v a)),
              b_delayPropagationScore = jround1 (delayPropagationScore (unit_metrics g v a)),
              b_resourceStrainScore = jround1 (resourceStrainScore (unit_metrics g v a)),
              b_overallImpactScore = jround1 (overallImpactScore (unit_metrics g v a)),
              patientsAffected = patientVolume a,
              downstreamDepartments = downstreamDepts (unit_metrics g v a),
              b_loadLevel = loadLevel (unit_metrics g v a),
              b_congestionIndicator = jround2 (congestionIndicator (unit_metrics g v a))\<rparr>)"
  by (auto simp: assess_department_def Let_def split: option.splits)

lemma loadLevel_unit_metrics:
  "loadLevel (unit_metrics g v a) =
     (if volumePercentile (unit_metrics g v a) < 60 then Low
      else if volumePercentile (unit_metrics g v a) < 100 then Moderate else High)"
  by (simp add: unit_metrics_def Let_def)

lemma reported_type:
  assumes m: "(d, a) \<in> set m" and dist: "distinct (map fst m)"
  shows "(\<exists>b \<in> set (detect_from m). departmentName b = d \<and> bottleneckType b = t) \<longleftrightarrow>
     3 \<le> length (times a)
     \<and> determine_type (unit_metrics (global_statistics m) (volume_statistics m) a) = Some t"
proof -
  have uniq: "a' = a" if "(d, a') \<in> set m" for a'
    using that m dist by (meson eq_key_imp_eq_value)
  show ?thesis
    unfolding detect_from_fields
  proof
    assume "\<exists>e \<in> set m. \<exists>b0.
        assess_department (global_statistics m) (volume_statistics m) e = Some b0
        \<and> departmentName b0 = d \<and> bottleneckType b0 = t"
    then obtain k a' b0 where e: "(k, a') \<in> set m"
      and s: "assess_department (global_statistics m) (volume_statistics m) (k, a') = Some b0"
      and f: "departmentName b0 = d" "bottleneckType b0 = t"
      by auto
    from s f have "k = d" by (auto simp: assess_department_Some)
    with e uniq have "a' = a" by simp
    with s f show "3 \<le> length (times a)
     \<and> determine_type (unit_metrics (global_statistics m) (volume_statistics m) a) = Some t"
      by (auto simp: assess_department_Some)
  next
    assume "3 \<le> length (times a)
     \<and> determine_type (unit_metrics (global_statistics m) (volume_statistics m) a) = Some t"
    then have "\<exists>b0. assess_department (global_statistics m) (volume_statistics m) (d, a) = Some b0
        \<and> departmentName b0 = d \<and> bottleneckType b0 = t"
      by (simp add: assess_department_Some)
    with m show "\<exists>e \<in> set m. \<exists>b0.
        assess_department (global_statistics m) (volume_statistics m) e = Some b0
        \<and> departmentName b0 = d \<and> bottleneckType b0 = t"
      by blast
  qed
qed

text \<open>
  Claim C1. A unit of the department analysis is reported by the classifier exactly when
  it has at least 3 duration samples and the ordered rule gives it a type: moderate load
  (volume percentile from 60 up to, not including, 100) with a delay propagation score
  above 30 is \<open>invisible\<close>; otherwise high load (volume percentile at least 100) with a
  time deviation above 50 is \<open>obvious\<close>; otherwise a variance ratio above 1.3 with a
  congestion indicator above 0.8 is \<open>emerging\<close>; otherwise the unit is absent from the
  output. The reported type is the first that matches. In particular a unit with 2
  samples is never reported and a unit with 3 samples is eligible.
\<close>

theorem classifier_first_match:
  assumes "(d, a) \<in> set (analyzeDepartmentFlows journeys)"
    and "m = unit_metrics (global_statistics (analyzeDepartmentFlows journeys))
               (volume_statistics (analyzeDepartmentFlows journeys)) a"
    and "invisible = (60 \<le> volumePercentile m \<and> volumePercentile m < 100
                      \<and> jgt (delayPropagationScore m) (Fin 30))"
    and "obvious = (100 \<le> volumePercentile m \<and> timeDeviation m > 50)"
    and "emerging = (varianceRatio m > 1.3 \<and> jgt (congestionIndicator m) (Fin 0.8))"
  shows "((\<exists>b \<in> set (detectBottlenecks journeys). departmentName b = d)
          \<longleftrightarrow> 3 \<le> length (times a) \<and> (invisible \<or> obvious \<or> emerging))
       \<and> (\<forall>b \<in> set (detectBottlenecks journeys). departmentName b = d \<longrightarrow>
             bottleneckType b = (if invisible then Invisible
                                 else if obvious then Obvious else Emerging))"
proof -
  let ?m = "analyzeDepartmentFlows journeys"
  have R: "(\<exists>b \<in> set (detectBottlenecks journeys). departmentName b = d \<and> bottleneckType b = t)
      \<longleftrightarrow> 3 \<le> length (times a) \<and> determine_type m = Some t" for t
    unfolding detectBottlenecks_def assms(2)
    by (rule reported_type [OF assms(1) distinct_analyzeDepartmentFlows])
  have D: "determine_type m =
      (if invisible then Some Invisible else if obvious then Some Obvious
       else if emerging then Some Emerging else None)"
    unfolding determine_type_def assms(3,4,5)
    by (auto simp: assms(2) loadLevel_unit_metrics)
  have "(\<exists>b \<in> set (detectBottlenecks journeys). departmentName b = d)
      \<longleftrightarrow> (\<exists>t. \<exists>b \<in> set (detectBottlenecks journeys). departmentName b = d \<and> bottleneckType b = t)"
    by blast
  also have "\<dots> \<longleftrightarrow> 3 \<le> length (times a) \<and> (invisible \<or> obvious \<or> emerging)"
    unfolding R D by auto
  finally have 1: "(\<exists>b \<in> set (detectBottlenecks journeys). departmentName b = d)
      \<longleftrightarrow> 3 \<le> length (times a) \<and> (invisible \<or> obvious \<or> emerging)" .
  have 2: "bottleneckType b = (if invisible then Invisible
                                 else if obvious then Obvious else Emerging)"
    if "b \<in> set (detectBottlenecks journeys)" "departmentName b = d" for b
  proof -
    from that have "\<exists>b' \<in> set (detectBottlenecks journeys).
        departmentName b' = d \<and> bottleneckType b' = bottleneckType b" by blast
    then have "determine_type m = Some (bottleneckType b)"
      using R [of "bottleneckType b"] by blast
    then show ?thesis unfolding D by (auto split: if_splits)
  qed
  from 1 2 show ?thesis by blast
qed


subsection \<open>Ranking\<close>

lemma is_fin_iff: "is_fin x \<longleftrightarrow> (\<exists>a. x = Fin a)"
  by (cases x) simp_all

lemma set_insort_cmp: "set (insort_cmp c x ys) = insert x (set ys)"
  by (induction ys) auto

lemma sorted_insort_cmp:
  assumes "sorted_wrt (\<lambda>a b. fin_val (k a) \<ge> fin_val (k b)) ys"
    and "is_fin (k x)" and "\<forall>y \<in> set ys. is_fin (k y)"
  shows "sorted_wrt (\<lambda>a b. fin_val (k a) \<ge> fin_val (k b))
           (insort_cmp (\<lambda>a b. jsub (k b) (k a)) x ys)"
  using assms
proof (induction ys)
  case Nil
  then show ?case by simp
next
  case (Cons y ys)
  from Cons.prems obtain a b where ab: "k x = Fin a" "k y = Fin b"
    by (auto simp: is_fin_iff)
  show ?case
  proof (cases "b > a")
    case True
    then show ?thesis using Cons ab
      by (auto simp: jsub_def set_insort_cmp)
  next
    case False
    then show ?thesis using Cons.prems ab
      by (auto simp: jsub_def)
  qed
qed

lemma sorted_sort_cmp:
  assumes "\<forall>x \<in> set xs. is_fin (k x)"
  shows "sorted_wrt (\<lambda>a b. fin_val (k a) \<ge> fin_val (k b)) (sort_cmp (\<lambda>a b. jsub (k b) (k a)) xs)"
  using assms
proof (induction xs)
  case Nil
  then show ?case by (simp add: sort_cmp_def)
next
  case (Cons x xs)
  have "sort_cmp (\<lambda>a b. jsub (k b) (k a)) (x # xs)
      = insort_cmp (\<lambda>a b. jsub (k b) (k a)) x (sort_cmp (\<lambda>a b. jsub (k b) (k a)) xs)"
    by (simp add: sort_cmp_def)
  then show ?case
    using Cons by (simp add: sorted_insort_cmp set_sort_cmp)
qed

lemma is_fin_jround1: "is_fin x \<Longrightarrow> is_fin (jround1 x)"
  by (cases x) (simp_all add: jround1_def)

lemma mean_zero_nonneg:
  assumes "\<forall>t \<in> set vs. (0::real) \<le> t" and "mean (calculateStatistics vs) = 0"
  shows "stdDev (calculateStatistics vs) = 0"
proof (cases "vs = []")
  case True
  then show ?thesis by (simp add: calculateStatistics_def)
next
  case False
  with assms(2) have "sum_list vs = 0"
    by (simp add: calculateStatistics_def Let_def foldl_plus_sum_list [where f = "\<lambda>v. v", simplified])
  with assms(1) have z: "\<forall>t \<in> set vs. t = 0"
    by (simp add: sum_list_nonneg_eq_0_iff)
  then have "(\<Sum>v\<leftarrow>vs. (v - 0) ^ 2) = 0"
    by (induction vs) simp_all
  with False assms(2) show ?thesis
    by (simp add: calculateStatistics_def Let_def foldl_plus_sum_list)
qed


lemma um_dps:
  "delayPropagationScore (unit_metrics g v a) =
     jmin (jscale (jdiv (avgDownstreamDelay (unit_metrics g v a)) (actualTime a)) 100) (Fin 100)"
  by (simp add: unit_metrics_def Let_def)

lemma um_ci:
  "congestionIndicator (unit_metrics g v a) =
     (if stdDev (calculateStatistics (times a)) > mean (calculateStatistics (times a)) * 0.5
      then jdiv (stdDev (calculateStatistics (times a))) (mean (calculateStatistics (times a)))
      else Fin 0)"
  by (simp add: unit_metrics_def Let_def)

lemma um_rss:
  "resourceStrainScore (unit_metrics g v a) =
     jmin (jadd (jadd (jscale (congestionIndicator (unit_metrics g v a)) 30)
                   (Fin (varianceRatio (unit_metrics g v a) * 40)))
             (Fin (\<bar>zScore (unit_metrics g v a)\<bar> * 30)))
       (Fin 100)"
  by (simp add: unit_metrics_def Let_def)

lemma um_overall:
  "overallImpactScore (unit_metrics g v a) =
     jadd (jadd (Fin (patientImpactScore (unit_metrics g v a) * 0.35))
             (jscale (delayPropagationScore (unit_metrics g v a)) 0.35))
       (jscale (resourceStrainScore (unit_metrics g v a)) 0.3)"
  by (simp add: unit_metrics_def Let_def)

lemma um_td:
  "timeDeviation (unit_metrics g v a) =
     (if expectedTime a > 0
      then ((actualTime a - expectedTime a) / expectedTime a) * 100 else 0)"
  by (simp add: unit_metrics_def Let_def)

lemma ci_cases:
  "congestionIndicator (unit_metrics g v a) = PInf
   \<or> (\<exists>c. congestionIndicator (unit_metrics g v a) = Fin c)"
  by (auto simp: um_ci jdiv_def)

lemma rss_finite: "is_fin (resourceStrainScore (unit_metrics g v a))"
  using ci_cases [of g v a] by (auto simp: um_rss)

lemma dps_cases:
  "delayPropagationScore (unit_metrics g v a) = NaN
   \<or> delayPropagationScore (unit_metrics g v a) = NInf
   \<or> (\<exists>c. delayPropagationScore (unit_metrics g v a) = Fin c)"
  by (auto simp: um_dps jdiv_def)

lemma dps_finite_nonzero:
  "actualTime a \<noteq> 0 \<Longrightarrow> is_fin (delayPropagationScore (unit_metrics g v a))"
  by (auto simp: um_dps jdiv_def)

lemma overall_finite:
  "is_fin (delayPropagationScore (unit_metrics g v a))
   \<Longrightarrow> is_fin (overallImpactScore (unit_metrics g v a))"
  using rss_finite [of g v a] by (auto simp: um_overall is_fin_iff)

lemma reported_overall_finite:
  assumes nn: "\<forall>t \<in> set (times a). 0 \<le> t"
    and at: "actualTime a = mean (calculateStatistics (times a))"
    and ty: "determine_type (unit_metrics g v a) = Some ty"
  shows "is_fin (overallImpactScore (unit_metrics g v a))"
proof (cases "actualTime a = 0")
  case False
  then show ?thesis by (simp add: overall_finite dps_finite_nonzero)
next
  case True
  with nn at have sd: "stdDev (calculateStatistics (times a)) = 0"
    by (simp add: mean_zero_nonneg)
  have ci: "congestionIndicator (unit_metrics g v a) = Fin 0"
    using True at sd by (simp add: um_ci)
  have td: "timeDeviation (unit_metrics g v a) \<le> 0"
    using True by (simp add: um_td divide_nonpos_pos)
  from ty ci td have "jgt (delayPropagationScore (unit_metrics g v a)) (Fin 30)"
    by (auto simp: determine_type_def split: if_splits)
  with dps_cases [of g v a] have "is_fin (delayPropagationScore (unit_metrics g v a))"
    by auto
  then show ?thesis by (rule overall_finite)
qed


lemma track_stage_times_ok:
  assumes "times_ok m" and "0 \<le> duration s"
  shows "times_ok (track_stage m s nxt)"
proof -
  have "\<forall>t \<in> set (times a). 0 \<le> t" if "(k, a) \<in> set (track_stage m s nxt)" for k a
  proof (cases "(k, a) \<in> set m")
    case True
    with assms(1) show ?thesis by (auto simp: times_ok_def)
  next
    case False
    have old: "\<forall>t \<in> set (times (case map_of m (department s) of Some a \<Rightarrow> a
                | None \<Rightarrow> new_analysis (department s))). 0 \<le> t"
      using assms(1)
      by (auto simp: times_ok_def new_analysis_def split: option.splits dest!: map_of_SomeD)
    from that False have "times a = times (case map_of m (department s) of Some a \<Rightarrow> a
                | None \<Rightarrow> new_analysis (department s)) @ [duration s]"
      by (auto simp: track_stage_def Let_def split: option.splits if_splits dest!: omap_set_mem)
    with old assms(2) show ?thesis by auto
  qed
  then show ?thesis by (auto simp: times_ok_def)
qed

lemma track_stages_times_ok:
  "times_ok m \<Longrightarrow> \<forall>s \<in> set ss. 0 \<le> duration s \<Longrightarrow> times_ok (track_stages m ss)"
  by (induction m ss rule: track_stages.induct) (simp_all add: track_stage_times_ok)

lemma foldl_track_times_ok:
  "times_ok m \<Longrightarrow> \<forall>j \<in> set js. \<forall>s \<in> set (stages j). 0 \<le> duration s \<Longrightarrow>
   times_ok (foldl (\<lambda>deptAnalysis journey. track_stages deptAnalysis (stages journey)) m js)"
  by (induction js arbitrary: m) (simp_all add: track_stages_times_ok)

lemma analyzeDepartmentFlows_ok:
  assumes "\<forall>j \<in> set js. \<forall>s \<in> set (stages j). 0 \<le> duration s"
    and "(k, a) \<in> set (analyzeDepartmentFlows js)"
  shows "(\<forall>t \<in> set (times a). 0 \<le> t) \<and> actualTime a = mean (calculateStatistics (times a))"
proof -
  from assms(2) obtain a0 where
    a0: "(k, a0) \<in> set (foldl (\<lambda>deptAnalysis journey. track_stages deptAnalysis (stages journey)) [] js)"
    and a: "a = set_statistics a0"
    by (auto simp: analyzeDepartmentFlows_def)
  have "times_ok (foldl (\<lambda>deptAnalysis journey. track_stages deptAnalysis (stages journey)) [] js)"
    using assms(1) by (intro foldl_track_times_ok) (simp_all add: times_ok_def)
  with a0 have "\<forall>t \<in> set (times a0). 0 \<le> t" by (auto simp: times_ok_def)
  then show ?thesis by (simp add: a set_statistics_def Let_def)
qed

lemma getPatientJourneys_nonneg:
  "\<forall>j \<in> set (getPatientJourneys fdept flowLogs). \<forall>s \<in> set (stages j). 0 \<le> duration s"
proof -
  have "journeys_ok (foldl (add_log fdept) [] flowLogs)"
    by (rule foldl_add_log_ok) (simp add: journeys_ok_def)
  then have "\<forall>(k, j) \<in> set (foldl (add_log fdept) [] flowLogs).
      \<forall>s \<in> set (stages j). 0 \<le> duration s"
    unfolding journeys_ok_def stage_ok_def by blast
  then show ?thesis
    by (fastforce simp: getPatientJourneys_def finish_journey_def Let_def split: if_splits)
qed

text \<open>
  Claim C3. In the list that \<open>detectBottlenecks\<close> returns for the journeys of the
  reconstructor, the record at position \<open>i\<close> (counted from 0) has rank \<open>i + 1\<close>, so the
  ranks are the dense sequence 1..N; and of two records the earlier has a finite overall
  impact score at least as large as the later, whose rank is larger by their distance
  (by one for a record and its successor).
\<close>

theorem ranks_dense_descending:
  assumes "bs = detectBottlenecks (getPatientJourneys fdept flowLogs)"
  shows "(\<forall>i < length bs. rank (bs ! i) = i + 1)
       \<and> (\<forall>i j. i < j \<and> j < length bs \<longrightarrow>
            (\<exists>x y. b_overallImpactScore (bs ! i) = Fin x
                 \<and> b_overallImpactScore (bs ! j) = Fin y \<and> y \<le> x
                 \<and> rank (bs ! j) = rank (bs ! i) + (j - i)))"
proof (cases "analyzeDepartmentFlows (getPatientJourneys fdept flowLogs) = []")
  case True
  then show ?thesis by (simp add: assms detectBottlenecks_def detect_from_def)
next
  case False
  let ?m = "analyzeDepartmentFlows (getPatientJourneys fdept flowLogs)"
  let ?cand = "List.map_filter (assess_department (global_statistics ?m) (volume_statistics ?m)) ?m"
  let ?srt = "sort_cmp (\<lambda>a b. jsub (b_overallImpactScore b) (b_overallImpactScore a)) ?cand"
  have bs: "bs = assign_ranks ?srt"
    using False by (simp add: assms detectBottlenecks_def detect_from_def Let_def)
  have fin: "\<forall>b \<in> set ?cand. is_fin (b_overallImpactScore b)"
  proof
    fix b assume "b \<in> set ?cand"
    then obtain k a where ka: "(k, a) \<in> set ?m"
      and b: "assess_department (global_statistics ?m) (volume_statistics ?m) (k, a) = Some b"
      by (auto simp: set_map_filter_Some)
    from ka have ok: "(\<forall>t \<in> set (times a). 0 \<le> t)
        \<and> actualTime a = mean (calculateStatistics (times a))"
      by (rule analyzeDepartmentFlows_ok [OF getPatientJourneys_nonneg])
    from b obtain ty where
      ty: "determine_type (unit_metrics (global_statistics ?m) (volume_statistics ?m) a) = Some ty"
      and ov: "b_overallImpactScore b
          = jround1 (overallImpactScore (unit_metrics (global_statistics ?m) (volume_statistics ?m) a))"
      by (auto simp: assess_department_Some)
    from ok ty show "is_fin (b_overallImpactScore b)"
      unfolding ov by (intro is_fin_jround1 reported_overall_finite) simp_all
  qed
  have srt: "sorted_wrt (\<lambda>a b. fin_val (b_overallImpactScore a) \<ge> fin_val (b_overallImpactScore b)) ?srt"
    by (rule sorted_sort_cmp [OF fin])
  have len: "length bs = length ?srt" by (simp add: bs length_assign_ranks)
  have nth: "bs ! i = (?srt ! i)\<lparr>rank := i + 1\<rparr>" if "i < length bs" for i
    using that by (simp add: bs length_assign_ranks nth_assign_ranks)
  have finn: "is_fin (b_overallImpactScore (?srt ! i))" if "i < length bs" for i
    using that fin len by (metis nth_mem set_sort_cmp)
  have 1: "\<forall>i < length bs. rank (bs ! i) = i + 1"
    by (simp add: nth)
  have 2: "\<exists>x y. b_overallImpactScore (bs ! i) = Fin x
                 \<and> b_overallImpactScore (bs ! j) = Fin y \<and> y \<le> x
                 \<and> rank (bs ! j) = rank (bs ! i) + (j - i)"
    if "i < j" "j < length bs" for i j
  proof -
    from that have i: "i < length bs" by simp
    from finn [OF i] finn [OF that(2)] obtain x y where
      xy: "b_overallImpactScore (?srt ! i) = Fin x" "b_overallImpactScore (?srt ! j) = Fin y"
      by (auto simp: is_fin_iff)
    from srt that len have "fin_val (b_overallImpactScore (?srt ! i))
        \<ge> fin_val (b_overallImpactScore (?srt ! j))"
      by (simp add: sorted_wrt_iff_nth_less)
    with xy have "y \<le> x" by simp
    with xy that i show ?thesis by (simp add: nth)
  qed
  from 1 2 show ?thesis by blast
qed



subsection \<open>The examples evaluated\<close>

lemma zero_stay_analysis:
  "analyzeDepartmentFlows (getPatientJourneys None zero_stay_logs) =
     [(''Triage'', triage_analysis),
      (''Ward'', \<lparr>name = ''Ward'', times = [10, 10, 10, 10, 10], patientVolume = 5,
          downstreamDelays = [], processingVariance = 0,
          expectedTime = 10, actualTime = 10\<rparr>)]"
  by (simp add: zero_stay_logs_def triage_visit_def ward_visit_def getPatientJourneys_def
      add_log_def Let_def truthy_def str_or_def minutes_between_def finish_journey_def
      categorizeDepartment_def DEPARTMENT_CATEGORIES_def
      analyzeDepartmentFlows_def track_stage_def new_analysis_def
      set_statistics_def calculateStatistics_def triage_analysis_def)

lemma cascade_analysis:
  "analyzeDepartmentFlows (getPatientJourneys None cascade_logs) =
     [(''Lab'', \<lparr>name = ''Lab'', times = [10, 10, 10], patientVolume = 3,
          downstreamDelays = [(''Imaging'', 6)], processingVariance = 0,
          expectedTime = 10, actualTime = 10\<rparr>),
      (''Imaging'', \<lparr>name = ''Imaging'', times = [10, 10, 10], patientVolume = 3,
          downstreamDelays = [(''Ward'', 15)], processingVariance = 0,
          expectedTime = 10, actualTime = 10\<rparr>),
      (''Ward'', \<lparr>name = ''Ward'', times = [10, 10, 10, 10, 10, 10], patientVolume = 6,
          downstreamDelays = [], processingVariance = 0,
          expectedTime = 10, actualTime = 10\<rparr>)]"
  by (simp add: cascade_logs_def cascade_visit_def ward_visit_def getPatientJourneys_def
      add_log_def Let_def truthy_def str_or_def minutes_between_def finish_journey_def
      categorizeDepartment_def DEPARTMENT_CATEGORIES_def
      analyzeDepartmentFlows_def track_stage_def new_analysis_def
      set_statistics_def calculateStatistics_def)


lemma zero_stay_volume:
  "mean (volume_statistics (analyzeDepartmentFlows (getPatientJourneys None zero_stay_logs))) = 4"
  unfolding zero_stay_analysis
  by (simp add: volume_statistics_def calculateStatistics_def triage_analysis_def)

lemma triage_metrics:
  "volumePercentile (unit_metrics g v triage_analysis)
     = (if mean v > 0 then 3 / mean v * 100 else 0)"
  "delayPropagationScore (unit_metrics g v triage_analysis) = Fin 100"
  by (simp_all add: unit_metrics_def Let_def triage_analysis_def jdiv_def)

theorem journey_total_is_sum_witness:
  "map (\<lambda>j. (patientId j, totalDuration j, map duration (stages j), map entryTime (stages j)))
     (getPatientJourneys None radiology_logs)
   = [(''p1'', 35, [5, 30], [0, 600000])]"
  using journey_total_is_sum [of None radiology_logs]
  by (simp add: radiology_logs_def getPatientJourneys_def add_log_def Let_def truthy_def
      str_or_def minutes_between_def finish_journey_def categorizeDepartment_def
      DEPARTMENT_CATEGORIES_def)

theorem classifier_first_match_witness:
  "(''Triage'', triage_analysis)
     \<in> set (analyzeDepartmentFlows (getPatientJourneys None zero_stay_logs))
   \<and> length (times triage_analysis) = 3
   \<and> (\<exists>b \<in> set (detectBottlenecks (getPatientJourneys None zero_stay_logs)).
         departmentName b = ''Triage'')"
proof -
  have mem: "(''Triage'', triage_analysis)
      \<in> set (analyzeDepartmentFlows (getPatientJourneys None zero_stay_logs))"
    unfolding zero_stay_analysis by simp
  show ?thesis
    using classifier_first_match [OF mem refl refl refl refl] mem
    by (simp add: triage_metrics zero_stay_volume) (simp add: triage_analysis_def)
qed

lemma cascade_global:
  "global_statistics [(''Lab'', lab_analysis), (''Imaging'', imaging_analysis), (''Ward'', ward_analysis)]
     = \<lparr>mean = 10, median = 10, q1 = 10, q3 = 10, iqr = 0, stdDev = 0\<rparr>"
  by (simp add: global_statistics_def lab_analysis_def imaging_analysis_def ward_analysis_def calculateStatistics_def)

lemma cascade_volume:
  "mean (volume_statistics [(''Lab'', lab_analysis), (''Imaging'', imaging_analysis), (''Ward'', ward_analysis)]) = 4"
  by (simp add: volume_statistics_def lab_analysis_def imaging_analysis_def ward_analysis_def calculateStatistics_def)

lemma stats3: "calculateStatistics [10, 10, 10]
     = \<lparr>mean = 10, median = 10, q1 = 10, q3 = 10, iqr = 0, stdDev = 0\<rparr>"
  by (simp add: calculateStatistics_def)

lemma stats6: "calculateStatistics [10, 10, 10, 10, 10, 10]
     = \<lparr>mean = 10, median = 10, q1 = 10, q3 = 10, iqr = 0, stdDev = 0\<rparr>"
  by (simp add: calculateStatistics_def)


lemma lab_assess:
  assumes "mean v = 4"
  shows "assess_department \<lparr>mean = 10, median = 10, q1 = 10, q3 = 10, iqr = 0, stdDev = 0\<rparr> v (''Lab'', lab_analysis)
   = Some \<lparr>departmentName = ''Lab'', rank = 0, bottleneckType = Invisible,
       b_expectedTime = 10, b_actualTime = 10, b_timeDeviation = 0, b_zScore = 0,
       b_iqrPosition = 0, b_varianceRatio = 1, b_patientImpactScore = 30,
       b_delayPropagationScore = Fin 60, b_resourceStrainScore = Fin 40,
       b_overallImpactScore = Fin (435 / 10), patientsAffected = 3,
       downstreamDepartments = [''Imaging''], b_loadLevel = Moderate,
       b_congestionIndicator = Fin 0\<rparr>"
  using assms
  by (simp add: assess_department_def lab_analysis_def unit_metrics_def stats3 calculateZScore_def
      calculateIQRPosition_def determine_type_def jdiv_def Let_def
      js_round_def round1_def round2_def jround1_def jround2_def)

lemma imaging_assess:
  assumes "mean v = 4"
  shows "assess_department \<lparr>mean = 10, median = 10, q1 = 10, q3 = 10, iqr = 0, stdDev = 0\<rparr> v (''Imaging'', imaging_analysis)
   = Some \<lparr>departmentName = ''Imaging'', rank = 0, bottleneckType = Invisible,
       b_expectedTime = 10, b_actualTime = 10, b_timeDeviation = 0, b_zScore = 0,
       b_iqrPosition = 0, b_varianceRatio = 1, b_patientImpactScore = 30,
       b_delayPropagationScore = Fin 100, b_resourceStrainScore = Fin 40,
       b_overallImpactScore = Fin (575 / 10), patientsAffected = 3,
       downstreamDepartments = [''Ward''], b_loadLevel = Moderate,
       b_congestionIndicator = Fin 0\<rparr>"
  using assms
  by (simp add: assess_department_def imaging_analysis_def unit_metrics_def stats3 calculateZScore_def
      calculateIQRPosition_def determine_type_def jdiv_def Let_def
      js_round_def round1_def round2_def jround1_def jround2_def)

lemma ward_assess:
  assumes "mean v = 4"
  shows "assess_department \<lparr>mean = 10, median = 10, q1 = 10, q3 = 10, iqr = 0, stdDev = 0\<rparr> v (''Ward'', ward_analysis)
   = None"
  using assms
  by (simp add: assess_department_def ward_analysis_def unit_metrics_def stats6 calculateZScore_def
      calculateIQRPosition_def determine_type_def jdiv_def Let_def)

lemma cascade_detect:
  "map (\<lambda>b. (departmentName b, rank b, b_overallImpactScore b))
     (detectBottlenecks (getPatientJourneys None cascade_logs))
   = [(''Imaging'', 1, Fin (575 / 10)), (''Lab'', 2, Fin (435 / 10))]"
  unfolding detectBottlenecks_def cascade_analysis lab_analysis_def [symmetric] imaging_analysis_def [symmetric]
    ward_analysis_def [symmetric]
  by (simp add: detect_from_def Let_def List.map_filter_def cascade_global
      lab_assess [OF cascade_volume] imaging_assess [OF cascade_volume]
      ward_assess [OF cascade_volume] sort_cmp_def assign_ranks_def jsub_def)

theorem ranks_dense_descending_witness:
  "map (\<lambda>b. (departmentName b, rank b, b_overallImpactScore b))
     (detectBottlenecks (getPatientJourneys None cascade_logs))
   = [(''Imaging'', 1, Fin (575 / 10)), (''Lab'', 2, Fin (435 / 10))]"
  using ranks_dense_descending [OF refl, of None cascade_logs] cascade_detect
  by simp

lemma guarded_denominators:
  "calculateZScore x mu 0 = 0"
  "calculateIQRPosition x lo hi 0 = 0"
  "stdDev g = 0 \<Longrightarrow> varianceRatio (unit_metrics g v a) = 1"
  "expectedTime a = 0 \<Longrightarrow> timeDeviation (unit_metrics g v a) = 0"
  by (simp_all add: calculateZScore_def calculateIQRPosition_def unit_metrics_def Let_def)

text \<open>
  Claim C7, at the input where it fails. The z-score, the IQR position, the variance
  ratio and the time deviation test their denominators (lemma \<open>guarded_denominators\<close>);
  the delay propagation score does not. In the zero-stay example Triage has three samples
  of duration 0, hence mean 0, and a downstream delay of 30 minutes: the quotient is
  infinite, \<open>Math.min\<close> brings it to 100, and Triage is reported with a delay propagation
  score of 100, not 0.
\<close>

theorem delay_propagation_unguarded:
  "map (\<lambda>b. (departmentName b, rank b, b_actualTime b, b_delayPropagationScore b))
     (detectBottlenecks (getPatientJourneys None zero_stay_logs))
   = [(''Triage'', 1, 0, Fin 100)]"
  unfolding detectBottlenecks_def zero_stay_analysis triage_analysis_def
  apply (simp add: detect_from_def Let_def List.map_filter_def assess_department_def
      global_statistics_def volume_statistics_def)
  apply (simp add: unit_metrics_def Let_def calculateStatistics_def determine_type_def
      jdiv_def calculateZScore_def calculateIQRPosition_def)
  apply (simp add: sort_cmp_def assign_ranks_def jround1_def js_round_def)
  done


subsection \<open>Readmission risk\<close>

lemma delay_score_wait_points: "calculateOperationalDelayScore r = wait_points r"
  by (simp add: calculateOperationalDelayScore_def wait_points_def average_wait_def Let_def
      foldl_plus_sum_list split: option.splits)

lemma fst_add_factor: "fst (add_factor nm imp st) = fst st + imp"
  by (simp add: add_factor_def split: prod.splits)

lemma wait_points_nonneg: "0 \<le> wait_points r"
  by (simp add: wait_points_def)

lemma score_sum:
  assumes "admissionDate r = Some a" and "dischargeDate r = Some d"
  shows "fst (score_factors tz r hist) =
       (if 0 < calculateLengthOfStay a d \<and> calculateLengthOfStay a d < 2 then 25
        else if calculateLengthOfStay a d > 14 then 20 else 0)
       + wait_points r
       + (if transitions r > 5 then 15 else 0)
       + min 30 (15 * int (length (recentVisits r hist)))
       + (if is_weekend tz a then 10 else 0)"
proof -
  show ?thesis
    using wait_points_nonneg [of r]
    by (auto simp: score_factors_def Let_def assms fst_add_factor delay_score_wait_points
        transitions_def is_weekend_def if_distrib [of fst] mult.commute
        split: option.splits)
qed

text \<open>
  Claim C10. The contributing factors of every risk returned by the readmission
  predictor are in descending order of impact: of two factors the earlier has an impact
  greater than or equal to the later, in particular for adjacent ones.
\<close>

theorem factors_sorted_by_impact:
  "sorted_wrt (\<lambda>f g. impact g \<le> impact f)
     (contributingFactors (predictReadmissionRisk tz r hist))"
proof -
  obtain sc fs where sf: "score_factors tz r hist = (sc, fs)"
    by (cases "score_factors tz r hist")
  have "sorted (map (\<lambda>f. - impact f) (sort_key (\<lambda>f. - impact f) fs))"
    by (rule sorted_sort_key)
  then have "sorted_wrt (\<lambda>f g. impact g \<le> impact f) (sort_key (\<lambda>f. - impact f) fs)"
    by (simp add: sorted_map)
  then show ?thesis
    by (simp add: predictReadmissionRisk_def sf Let_def)
qed


lemma recentVisits_prior: "recentVisits r hist = prior_admissions r hist"
proof -
  let ?P = "\<lambda>x. record_patientId x = record_patientId r \<and> record_id x \<noteq> record_id r"
  let ?Q = "\<lambda>x. case (admissionDate x, admissionDate r) of
                   (Some ra, Some a) \<Rightarrow>
                     (let daysDiff = real_of_int (a - ra) / (1000 * 60 * 60 * 24)
                      in daysDiff > 0 \<and> daysDiff < 90)
                 | _ \<Rightarrow> False"
  let ?Q' = "\<lambda>x. case (admissionDate x, admissionDate r) of
                   (Some ra, Some a) \<Rightarrow> ra < a \<and> a - ra < 90 * 86400000
                 | _ \<Rightarrow> False"
  have q: "?Q x = ?Q' x" for x
    by (auto simp: Let_def field_simps split: option.splits)
  have "recentVisits r hist = filter ?Q (filter ?P hist)"
    by (cases "filter ?P hist = []") (simp_all add: recentVisits_def Let_def)
  also have "\<dots> = filter (\<lambda>x. ?P x \<and> ?Q' x) hist"
    unfolding filter_filter q by (rule filter_cong) auto
  also have "\<dots> = prior_admissions r hist"
    unfolding prior_admissions_def by (rule filter_cong) auto
  finally show ?thesis .
qed

text \<open>
  Claim C4, as amended. For a record with an admission and a discharge date the risk
  score is the sum of: 25 when the length of stay is above 0 and below 2 days, 20 when it
  is above 14 days; 30, 20 or 10 when the average wait per step exceeds 120, 90 or 60
  minutes; 15 when there are more than 5 steps; 15 for each prior admission of the same
  patient within the 90 days before, at most 30; and a weekend contribution that is 10
  when admission and discharge both fall on a Friday or Saturday and 0 when neither
  does. The level is critical from 70, high from 50, medium from 30 and low below.
\<close>

theorem readmission_score:
  assumes "admissionDate r = Some a" and "dischargeDate r = Some d"
  shows "\<exists>w. riskScore (predictReadmissionRisk tz r hist) =
           (if 0 < calculateLengthOfStay a d \<and> calculateLengthOfStay a d < 2 then 25
            else if calculateLengthOfStay a d > 14 then 20 else 0)
           + wait_points r
           + (if transitions r > 5 then 15 else 0)
           + min 30 (15 * int (length (prior_admissions r hist)))
           + w
         \<and> (w = 0 \<or> w = 10)
         \<and> (is_weekend tz a \<and> is_weekend tz d \<longrightarrow> w = 10)
         \<and> (\<not> is_weekend tz a \<and> \<not> is_weekend tz d \<longrightarrow> w = 0)
         \<and> riskLevel (predictReadmissionRisk tz r hist) =
             (if riskScore (predictReadmissionRisk tz r hist) \<ge> 70 then Critical_risk
              else if riskScore (predictReadmissionRisk tz r hist) \<ge> 50 then High_risk
              else if riskScore (predictReadmissionRisk tz r hist) \<ge> 30 then Medium_risk
              else Low_risk)"
proof -
  have s: "riskScore (predictReadmissionRisk tz r hist) = fst (score_factors tz r hist)"
    by (simp add: predictReadmissionRisk_def Let_def split: prod.splits)
  have l: "riskLevel (predictReadmissionRisk tz r hist)
      = risk_level_of (fst (score_factors tz r hist))"
    by (simp add: predictReadmissionRisk_def Let_def split: prod.splits)
  show ?thesis
    unfolding s l score_sum [OF assms] recentVisits_prior
    by (intro exI [of _ "if is_weekend tz a then 10 else 0"]) (simp add: risk_level_of_def)
qed

text \<open>
  Claim C4 as stated fails for a stay of length 0: the record admitted and discharged at
  the same instant scores 0, where the stated sum gives the 25 points of a stay below
  two days.
\<close>

theorem readmission_score_counterexample:
  "riskScore (predictReadmissionRisk 0 same_day_record []) = 0
   \<and> spec_risk_score 0 same_day_record [] = 25"
  by (simp add: predictReadmissionRisk_def score_factors_def same_day_record_def Let_def
      calculateLengthOfStay_def calculateOperationalDelayScore_def recentVisits_def getDay_def
      spec_risk_score_def wait_points_def average_wait_def transitions_def
      prior_admissions_def is_weekend_def)

lemma long_stay_risk:
  "predictReadmissionRisk 0 long_stay_record [] =
     \<lparr>risk_patientId = ''p2'', riskScore = 50, riskLevel = High_risk,
      contributingFactors = [\<lparr>factor = ''Operational Delays'', impact = 30\<rparr>,
                             \<lparr>factor = ''Extended Length of Stay'', impact = 20\<rparr>],
      daysUntilReadmission = 14, delayInfluence = 30, departmentRisk = [''d1'', ''d2'']\<rparr>"
  by (simp add: predictReadmissionRisk_def score_factors_def long_stay_record_def Let_def
      calculateLengthOfStay_def calculateOperationalDelayScore_def recentVisits_def getDay_def
      add_factor_def risk_level_of_def identifyHighRiskDepartments_def)

theorem readmission_score_witness:
  "admissionDate long_stay_record = Some 345600000
   \<and> dischargeDate long_stay_record = Some 1641600000
   \<and> riskScore (predictReadmissionRisk 0 long_stay_record []) = 50
   \<and> riskLevel (predictReadmissionRisk 0 long_stay_record []) = High_risk"
proof -
  have a: "admissionDate long_stay_record = Some 345600000"
    and d: "dischargeDate long_stay_record = Some 1641600000"
    by (simp_all add: long_stay_record_def)
  show ?thesis
    using readmission_score [OF a d, of 0 "[]"] a d
    by (simp add: long_stay_risk)
qed

theorem factors_sorted_by_impact_witness:
  "map impact (contributingFactors (predictReadmissionRisk 0 long_stay_record [])) = [30, 20]"
  using factors_sorted_by_impact [of 0 long_stay_record "[]"]
  by (simp add: long_stay_risk)


subsection \<open>Per-unit prediction\<close>

lemma avgDelay_of_eq: "avgDelay_of m = average_delay m"
  by (simp add: avgDelay_of_def average_delay_def
      foldl_plus_sum_list [where f = "\<lambda>v. v", simplified])

lemma delayFrequency_of_eq: "delayFrequency_of m = frequency m"
  by (simp add: delayFrequency_of_def frequency_def)

lemma predict_department_tier:
  "(pred_riskLevel (predict_department (d, m)), probability (predict_department (d, m)))
     = strict_tier (frequency m) (average_delay m)
   \<and> pred_departmentName (predict_department (d, m)) = d"
proof -
  obtain rl pr where t: "strict_tier (frequency m) (average_delay m) = (rl, pr)"
    by (cases "strict_tier (frequency m) (average_delay m)")
  have "predict_department (d, m) =
      (case strict_tier (frequency m) (average_delay m) of (rl', pr') \<Rightarrow>
         \<lparr>pred_departmentName = d, pred_riskLevel = rl', probability = pr',
          expectedImpact = js_round (average_delay m * frequency m),
          daysUntil = (if rl' = Critical_risk then 3
                         else if rl' = High_risk then 7
                         else if rl' = Medium_risk then 14 else 30)\<rparr>)"
    unfolding predict_department_def Let_def strict_tier_def avgDelay_of_eq delayFrequency_of_eq
    by (simp only: prod.case)
  then show ?thesis by (simp add: t)
qed

text \<open>
  Claim C8, as amended. Every department of the metrics map has a prediction, and every
  prediction belongs to a department of the map, whose risk tier and probability are:
  critical with 0.85 when the delay frequency is above 0.3 and the average delay above
  120 minutes; otherwise high with 0.65 when the frequency is above 0.2 or the average
  above 90; otherwise medium with 0.40 when the frequency is above 0.1 or the average
  above 60; otherwise low with 0.15. All comparisons are strict.
\<close>

theorem prediction_tiers:
  "(\<forall>(d, m) \<in> set (department_metrics records).
      \<exists>p \<in> set (predictBottlenecks records).
        pred_departmentName p = d
        \<and> (pred_riskLevel p, probability p) = strict_tier (frequency m) (average_delay m))
   \<and> (\<forall>p \<in> set (predictBottlenecks records).
        \<exists>m. (pred_departmentName p, m) \<in> set (department_metrics records)
        \<and> (pred_riskLevel p, probability p) = strict_tier (frequency m) (average_delay m))"
proof -
  have S: "set (predictBottlenecks records) = predict_department ` set (department_metrics records)"
    by (simp add: predictBottlenecks_def)
  show ?thesis
    unfolding S using predict_department_tier by fastforce
qed

lemma icu_metrics:
  "department_metrics icu_records
     = [(''ICU'', \<lparr>totalPatients = 10, delays = [130, 130, 130]\<rparr>)]"
  by (simp add: department_metrics_def icu_records_def icu_patient_def add_record_def
      truthy_def Let_def)


lemma icu_freq:
  "frequency \<lparr>totalPatients = 10, delays = [130, 130, 130]\<rparr> = 3 / 10"
  "average_delay \<lparr>totalPatients = 10, delays = [130, 130, 130]\<rparr> = 130"
  by (simp_all add: frequency_def average_delay_def)

lemma tiers_at: "strict_tier (3 / 10) 130 = (High_risk, 65 / 100)"
  "claimed_tier (3 / 10) 130 = (Critical_risk, 85 / 100)"
  by (simp_all add: strict_tier_def claimed_tier_def)

lemma icu_prediction:
  "map (\<lambda>p. (pred_departmentName p, pred_riskLevel p, probability p))
        (predictBottlenecks icu_records) = [(''ICU'', High_risk, 65 / 100)]"
  using predict_department_tier [of "''ICU''" "\<lparr>totalPatients = 10, delays = [130, 130, 130]\<rparr>"]
  by (simp add: predictBottlenecks_def icu_metrics icu_freq tiers_at)

text \<open>
  Claim C8 as stated fails at a delay frequency of exactly 0.3: the ICU of the example
  has 3 delays over 10 patients, averaging 130 minutes, and is predicted high with 0.65,
  where the stated rule (frequency at least 0.3) gives critical with 0.85.
\<close>

theorem prediction_tiers_counterexample:
  "frequency \<lparr>totalPatients = 10, delays = [130, 130, 130]\<rparr> = 3 / 10
   \<and> average_delay \<lparr>totalPatients = 10, delays = [130, 130, 130]\<rparr> = 130
   \<and> map (\<lambda>p. (pred_departmentName p, pred_riskLevel p, probability p))
        (predictBottlenecks icu_records) = [(''ICU'', High_risk, 65 / 100)]
   \<and> claimed_tier (3 / 10) 130 = (Critical_risk, 85 / 100)"
  by (simp add: icu_prediction icu_freq tiers_at)

theorem prediction_tiers_witness:
  "(''ICU'', \<lparr>totalPatients = 10, delays = [130, 130, 130]\<rparr>)
      \<in> set (department_metrics icu_records)
   \<and> strict_tier (3 / 10) 130 = (High_risk, 65 / 100)
   \<and> map (\<lambda>p. (pred_departmentName p, pred_riskLevel p, probability p))
        (predictBottlenecks icu_records) = [(''ICU'', High_risk, 65 / 100)]"
  using prediction_tiers [of icu_records]
  by (simp add: icu_prediction icu_metrics tiers_at)


subsection \<open>Intervention simulation\<close>

text \<open>
  Claim C6, as amended. Simulating an intervention whose type is none of \<open>staff\<close>,
  \<open>beds\<close> and \<open>processing_time\<close> does not fail: it returns a result for the given
  intervention whose projected metrics are the baseline metrics, whose patients impacted
  are the baseline throughput, and whose estimated cost and return on investment are 0.
\<close>

theorem unknown_type_returns_baseline:
  assumes "itype i \<noteq> ''staff''" and "itype i \<noteq> ''beds''"
    and "itype i \<noteq> ''processing_time''"
  shows "\<exists>res. simulateIntervention i b staff_count bed_capacity = Inr res
           \<and> res_intervention res = i \<and> res_baseline res = b \<and> res_projected res = b
           \<and> patientsImpacted (res_improvements res) = throughput b
           \<and> estimatedCost (res_costBenefit res) = 0
           \<and> roi (res_costBenefit res) = Fin 0"
  using assms
  by (simp add: simulateIntervention_def Let_def calculateCostBenefit_def jround2_def
      js_round_def)

text \<open>
  Claim C6 as stated fails: for the type \<open>overtime\<close> the simulation returns a result,
  the baseline projected onto itself with no improvement and no cost, and raises nothing.
\<close>

theorem unknown_type_counterexample:
  "simulateIntervention overtime_intervention icu_baseline None None =
     Inr \<lparr>res_intervention = overtime_intervention, res_baseline = icu_baseline,
          res_projected = icu_baseline,
          res_improvements = \<lparr>losReduction = Fin 0, losReductionPercent = Fin 0,
                          bedUtilizationChange = Fin 0, readmissionRiskReduction = Fin 0,
                          patientsImpacted = Fin 50\<rparr>,
          res_costBenefit = \<lparr>estimatedCost = 0, impactScore = Fin 0, roi = Fin 0\<rparr>\<rparr>"
  by (simp add: simulateIntervention_def Let_def calculateCostBenefit_def jround1_def jround2_def
      js_round_def overtime_intervention_def icu_baseline_def jsub_def jdiv_def)

theorem unknown_type_returns_baseline_witness:
  "itype overtime_intervention \<noteq> ''staff'' \<and> itype overtime_intervention \<noteq> ''beds''
   \<and> itype overtime_intervention \<noteq> ''processing_time''
   \<and> (\<exists>res. simulateIntervention overtime_intervention icu_baseline None None = Inr res
           \<and> res_projected res = icu_baseline \<and> estimatedCost (res_costBenefit res) = 0)"
proof -
  have t: "itype overtime_intervention \<noteq> ''staff''" "itype overtime_intervention \<noteq> ''beds''"
    "itype overtime_intervention \<noteq> ''processing_time''"
    by (simp_all add: overtime_intervention_def)
  from unknown_type_returns_baseline [OF t, of icu_baseline None None] t
  show ?thesis by blast
qed

text \<open>The staffing scenario of the specification: two more staff on ten bring a
  processing time of 120 minutes to 100.\<close>

lemma staff_scenario:
  "avgProcessingTime (projectStaffIntervention
      \<lparr>averageLOS = Fin 4, bedUtilization = Fin 80, avgProcessingTime = Fin 120,
       readmissionRisk = Fin 16, throughput = Fin 50\<rparr> 2 10) = Fin 100"
  by (simp add: projectStaffIntervention_def Let_def jdiv_def js_round_def)


subsection \<open>Delay propagation\<close>

lemma split_no_arrow: "\<not> has_arrow b \<Longrightarrow> split_arrow b = [b]"
  by (induction b) auto

lemma take3_append_arrow:
  assumes "take 3 (c # a) \<noteq> arrow"
  shows "take 3 ((c # a) @ arrow @ b) \<noteq> arrow"
proof (cases a)
  case Nil
  then show ?thesis by (simp add: arrow_def)
next
  case (Cons x a')
  show ?thesis
  proof (cases a')
    case Nil
    with Cons show ?thesis by (simp add: arrow_def)
  next
    case (Cons y a'')
    with \<open>a = x # a'\<close> assms show ?thesis by simp
  qed
qed

lemma split_key:
  "\<not> has_arrow a \<Longrightarrow> \<not> has_arrow b \<Longrightarrow> split_arrow (a @ arrow @ b) = [a, b]"
proof (induction a)
  case Nil
  then show ?case by (simp add: split_no_arrow arrow_def)
next
  case (Cons c a)
  then have t: "take 3 (c # a) \<noteq> arrow" and a: "\<not> has_arrow a" by auto
  have "take 3 ((c # a) @ arrow @ b) \<noteq> arrow" by (rule take3_append_arrow [OF t])
  then have "split_arrow ((c # a) @ arrow @ b)
      = (case split_arrow (a @ arrow @ b) of p # ps \<Rightarrow> (c # p) # ps | [] \<Rightarrow> [[c]])"
    by simp
  with Cons.IH [OF a Cons.prems(2)] show ?case by simp
qed


lemma record_wait_alt:
  "record_wait m p =
     (if wait_of p > 5 then
        omap_set m (key_of p)
          \<lparr>totalDelay = totalDelay (case map_of m (key_of p) of Some e \<Rightarrow> e
                                     | None \<Rightarrow> \<lparr>totalDelay = 0, count = 0\<rparr>) + wait_of p,
           count = count (case map_of m (key_of p) of Some e \<Rightarrow> e
                          | None \<Rightarrow> \<lparr>totalDelay = 0, count = 0\<rparr>) + 1\<rparr>
      else m)"
  by (cases p) (simp add: record_wait_def wait_of_def key_of_def Let_def)

lemma foldl_nested:
  "foldl (\<lambda>m j. foldl f m (g j)) a js = foldl f a (concat (map g js))"
  by (induction js arbitrary: a) simp_all

lemma propagation_map_flat: "propagation_map journeys = foldl record_wait [] (all_pairs journeys)"
  by (simp add: propagation_map_def all_pairs_def foldl_nested)

lemma distinct_record_waits: "distinct (map fst (foldl record_wait [] pairs))"
proof (induction pairs rule: rev_induct)
  case Nil
  show ?case by simp
next
  case (snoc p pairs)
  then show ?case by (simp add: record_wait_alt distinct_omap_set)
qed

lemma aggregate_record_waits:
  "map_of (foldl record_wait [] pairs) k =
     (if waits_for_key k pairs = [] then None
      else Some \<lparr>totalDelay = sum_list (waits_for_key k pairs),
                 count = length (waits_for_key k pairs)\<rparr>)"
proof (induction pairs arbitrary: k rule: rev_induct)
  case Nil
  show ?case by (simp add: waits_for_key_def)
next
  case (snoc p pairs)
  show ?case
  proof (cases "wait_of p > 5")
    case False
    then show ?thesis using snoc by (simp add: record_wait_alt waits_for_key_def)
  next
    case True
    show ?thesis
    proof (cases "key_of p = k")
      case False
      with True snoc show ?thesis
        by (simp add: record_wait_alt map_of_omap_set waits_for_key_def)
    next
      case k: True
      have w: "waits_for_key k (pairs @ [p]) = waits_for_key k pairs @ [wait_of p]"
        using True k by (simp add: waits_for_key_def)
      show ?thesis
        using True k snoc [of k]
        by (simp add: record_wait_alt map_of_omap_set w)
    qed
  qed
qed


lemma consecutive_mem: "(x, y) \<in> set (consecutive xs) \<Longrightarrow> x \<in> set xs \<and> y \<in> set xs"
  by (induction xs rule: consecutive.induct) auto

lemma plain_all_pairs:
  assumes "\<forall>j \<in> set journeys. \<forall>s \<in> set (stages j). \<not> has_arrow (department s)"
  shows "plain_names (all_pairs journeys)"
  using assms unfolding plain_names_def all_pairs_def
  by (auto dest!: consecutive_mem)

lemma counted_waits_flat:
  "counted_waits journeys = filter (\<lambda>(s, t, w). w > 5) (map trip (all_pairs journeys))"
proof -
  have "(\<lambda>(current, next). (department current, department next,
            minutes_between (exitTime current) (entryTime next))) = trip"
    by (auto simp: trip_def wait_of_def fun_eq_iff)
  then show ?thesis
    by (simp add: counted_waits_def all_pairs_def filter_concat map_concat comp_def)
qed

lemma waits_between_flat:
  "waits_between a b (filter (\<lambda>(s, t, w). w > 5) (map trip pairs))
     = map wait_of (filter (\<lambda>p. wait_of p > 5 \<and> department (fst p) = a
                                 \<and> department (snd p) = b) pairs)"
  by (induction pairs) (auto simp: waits_between_def trip_def)

lemma key_of_eq:
  assumes "\<not> has_arrow (department (fst p))" "\<not> has_arrow (department (snd p))"
    and "\<not> has_arrow a" "\<not> has_arrow b"
  shows "key_of p = a @ arrow @ b \<longleftrightarrow> department (fst p) = a \<and> department (snd p) = b"
proof
  assume "key_of p = a @ arrow @ b"
  then have "split_arrow (department (fst p) @ arrow @ department (snd p))
      = split_arrow (a @ arrow @ b)"
    by (simp add: key_of_def)
  with assms show "department (fst p) = a \<and> department (snd p) = b"
    by (simp add: split_key)
next
  assume "department (fst p) = a \<and> department (snd p) = b"
  then show "key_of p = a @ arrow @ b" by (simp add: key_of_def)
qed

lemma waits_for_key_between:
  assumes "plain_names (all_pairs journeys)" and "\<not> has_arrow a" and "\<not> has_arrow b"
  shows "waits_for_key (a @ arrow @ b) (all_pairs journeys)
       = waits_between a b (counted_waits journeys)"
proof -
  have "filter (\<lambda>p. wait_of p > 5 \<and> key_of p = a @ arrow @ b) (all_pairs journeys)
      = filter (\<lambda>p. wait_of p > 5 \<and> department (fst p) = a \<and> department (snd p) = b)
          (all_pairs journeys)"
    using assms by (intro filter_cong refl) (auto simp: plain_names_def key_of_eq)
  then show ?thesis
    by (simp add: waits_for_key_def counted_waits_flat waits_between_flat)
qed

lemma entry_edge:
  assumes plain: "plain_names (all_pairs journeys)"
    and mem: "(k, d) \<in> set (propagation_map journeys)"
  shows "\<exists>a b. k = a @ arrow @ b \<and> \<not> has_arrow a \<and> \<not> has_arrow b
           \<and> waits_between a b (counted_waits journeys) \<noteq> []
           \<and> d = \<lparr>totalDelay = sum_list (waits_between a b (counted_waits journeys)),
                   count = length (waits_between a b (counted_waits journeys))\<rparr>
           \<and> sourceDepartment (make_propagation (k, d)) = a
           \<and> targetDepartment (make_propagation (k, d)) = b"
proof -
  let ?E = "all_pairs journeys"
  from mem have "map_of (foldl record_wait [] ?E) k = Some d"
    unfolding propagation_map_flat
    by (intro map_of_is_SomeI distinct_record_waits)
  then have ne: "waits_for_key k ?E \<noteq> []"
    and d: "d = \<lparr>totalDelay = sum_list (waits_for_key k ?E), count = length (waits_for_key k ?E)\<rparr>"
    by (auto simp: aggregate_record_waits split: if_splits)
  from ne obtain p where p: "p \<in> set ?E" "key_of p = k"
    by (auto simp: waits_for_key_def filter_empty_conv)
  let ?a = "department (fst p)" and ?b = "department (snd p)"
  from plain p have ab: "\<not> has_arrow ?a" "\<not> has_arrow ?b"
    by (auto simp: plain_names_def)
  have k: "k = ?a @ arrow @ ?b" using p by (simp add: key_of_def)
  have w: "waits_for_key k ?E = waits_between ?a ?b (counted_waits journeys)"
    unfolding k by (rule waits_for_key_between [OF plain ab])
  have "sourceDepartment (make_propagation (k, d)) = ?a
      \<and> targetDepartment (make_propagation (k, d)) = ?b"
    by (simp add: make_propagation_def Let_def k split_key [OF ab])
  with k ab ne d w show ?thesis by metis
qed


lemma set_getDelayPropagationMap:
  "set (getDelayPropagationMap journeys) = make_propagation ` set (propagation_map journeys)"
  by (simp add: getDelayPropagationMap_def)

lemma edge_fields:
  assumes plain: "plain_names (all_pairs journeys)"
    and e: "e \<in> set (getDelayPropagationMap journeys)"
  shows "waits_between (sourceDepartment e) (targetDepartment e) (counted_waits journeys) \<noteq> []
     \<and> prop_patientsAffected e
         = length (waits_between (sourceDepartment e) (targetDepartment e) (counted_waits journeys))
     \<and> avgDelayTransferred e
         = js_round (sum_list (waits_between (sourceDepartment e) (targetDepartment e)
                                 (counted_waits journeys))
                     / real (length (waits_between (sourceDepartment e) (targetDepartment e)
                                       (counted_waits journeys))))
     \<and> propagationStrength e
         = round1 (min 100
             (sum_list (waits_between (sourceDepartment e) (targetDepartment e)
                          (counted_waits journeys))
              / real (length (waits_between (sourceDepartment e) (targetDepartment e)
                                (counted_waits journeys))) / 60 * 100))"
proof -
  from e obtain k d where kd: "(k, d) \<in> set (propagation_map journeys)"
    and ee: "e = make_propagation (k, d)"
    by (auto simp: set_getDelayPropagationMap)
  from entry_edge [OF plain kd] obtain a b where
    ne: "waits_between a b (counted_waits journeys) \<noteq> []"
    and d: "d = \<lparr>totalDelay = sum_list (waits_between a b (counted_waits journeys)),
                   count = length (waits_between a b (counted_waits journeys))\<rparr>"
    and st: "sourceDepartment e = a" "targetDepartment e = b"
    unfolding ee by blast
  have "prop_patientsAffected e = count d
      \<and> avgDelayTransferred e = js_round (totalDelay d / real (count d))
      \<and> propagationStrength e = round1 (min 100 (totalDelay d / real (count d) / 60 * 100))"
    by (simp add: ee make_propagation_def Let_def min.commute mult.commute)
  with ne show ?thesis unfolding st by (simp add: d)
qed

lemma wait_has_edge:
  assumes plain: "plain_names (all_pairs journeys)"
    and w: "(s, t, w) \<in> set (counted_waits journeys)"
  shows "\<exists>e \<in> set (getDelayPropagationMap journeys).
           sourceDepartment e = s \<and> targetDepartment e = t"
proof -
  let ?E = "all_pairs journeys"
  from w obtain p where p: "p \<in> set ?E" "trip p = (s, t, w)" "w > 5"
    by (auto simp: counted_waits_flat)
  then have st: "department (fst p) = s" "department (snd p) = t" "wait_of p > 5"
    by (auto simp: trip_def)
  with p have "waits_for_key (key_of p) ?E \<noteq> []"
    by (auto simp: waits_for_key_def filter_empty_conv)
  then obtain d where "map_of (foldl record_wait [] ?E) (key_of p) = Some d"
    by (simp add: aggregate_record_waits)
  then have kd: "(key_of p, d) \<in> set (propagation_map journeys)"
    unfolding propagation_map_flat by (rule map_of_SomeD)
  from entry_edge [OF plain kd] obtain a b where
    k: "key_of p = a @ arrow @ b" and ab: "\<not> has_arrow a" "\<not> has_arrow b"
    and e: "sourceDepartment (make_propagation (key_of p, d)) = a"
      "targetDepartment (make_propagation (key_of p, d)) = b"
    by blast
  from plain p have "\<not> has_arrow (department (fst p))" "\<not> has_arrow (department (snd p))"
    by (auto simp: plain_names_def)
  with k ab have "department (fst p) = a \<and> department (snd p) = b"
    by (simp add: key_of_eq)
  with st e kd show ?thesis
    by (auto simp: set_getDelayPropagationMap intro!: bexI [of _ "(key_of p, d)"])
qed

lemma one_edge_per_pair:
  assumes plain: "plain_names (all_pairs journeys)"
  shows "distinct (map (\<lambda>e. (sourceDepartment e, targetDepartment e))
                     (getDelayPropagationMap journeys))"
proof -
  let ?M = "propagation_map journeys"
  let ?f = "\<lambda>e. (sourceDepartment e, targetDepartment e)"
  have dk: "distinct (map fst ?M)"
    unfolding propagation_map_flat by (rule distinct_record_waits)
  then have dM: "distinct ?M" by (simp add: distinct_map)
  have inj: "inj_on (\<lambda>x. ?f (make_propagation x)) (set ?M)"
  proof (rule inj_onI)
    fix x y assume x: "x \<in> set ?M" and y: "y \<in> set ?M"
      and eq: "?f (make_propagation x) = ?f (make_propagation y)"
    obtain k d where xk: "x = (k, d)" by (cases x)
    obtain k' d' where yk: "y = (k', d')" by (cases y)
    from entry_edge [OF plain x [unfolded xk]] entry_edge [OF plain y [unfolded yk]] eq
    have "k = k'" unfolding xk yk by auto
    with x y dk show "x = y" unfolding xk yk by (auto dest: eq_key_imp_eq_value)
  qed
  from dM inj have "distinct (map (\<lambda>x. ?f (make_propagation x)) ?M)"
    by (simp add: distinct_map)
  then have "distinct (map ?f (map make_propagation ?M))"
    by (simp add: comp_def)
  then have "distinct (map make_propagation ?M) \<and> inj_on ?f (set (map make_propagation ?M))"
    by (simp only: distinct_map)
  then show ?thesis
    unfolding getDelayPropagationMap_def by (simp add: distinct_map)
qed

lemma edges_sorted:
  "sorted_wrt (\<lambda>a b. propagationStrength b \<le> propagationStrength a)
     (getDelayPropagationMap journeys)"
proof -
  have "sorted (map (\<lambda>p. - propagationStrength p) (getDelayPropagationMap journeys))"
    unfolding getDelayPropagationMap_def by (rule sorted_sort_key)
  then show ?thesis by (simp add: sorted_map)
qed

text \<open>
  Claim C5, as amended. For journeys whose unit names do not contain the arrow of the
  key: a wait between consecutive stages counts exactly when it exceeds 5 minutes; every
  edge stands for a pair of units with at least one counted wait, its patient count is the
  number of these waits, its average delay is their total over their number rounded to
  the nearest integer, and its propagation strength is the minimum of 100 and that
  average over 60 times 100, rounded to one decimal; every pair with a counted wait has
  exactly one edge; and the edges are in descending order of the reported strength.
\<close>

theorem delay_edges:
  assumes "\<forall>j \<in> set journeys. \<forall>s \<in> set (stages j). \<not> has_arrow (department s)"
  shows "sorted_wrt (\<lambda>a b. propagationStrength b \<le> propagationStrength a)
           (getDelayPropagationMap journeys)
     \<and> (\<forall>e \<in> set (getDelayPropagationMap journeys).
          waits_between (sourceDepartment e) (targetDepartment e) (counted_waits journeys) \<noteq> []
          \<and> prop_patientsAffected e
              = length (waits_between (sourceDepartment e) (targetDepartment e)
                          (counted_waits journeys))
          \<and> avgDelayTransferred e
              = js_round (sum_list (waits_between (sourceDepartment e) (targetDepartment e)
                                      (counted_waits journeys))
                          / real (length (waits_between (sourceDepartment e) (targetDepartment e)
                                            (counted_waits journeys))))
          \<and> propagationStrength e
              = round1 (min 100
                  (sum_list (waits_between (sourceDepartment e) (targetDepartment e)
                               (counted_waits journeys))
                   / real (length (waits_between (sourceDepartment e) (targetDepartment e)
                                     (counted_waits journeys))) / 60 * 100)))
     \<and> (\<forall>(s, t, w) \<in> set (counted_waits journeys).
          \<exists>e \<in> set (getDelayPropagationMap journeys).
            sourceDepartment e = s \<and> targetDepartment e = t)
     \<and> distinct (map (\<lambda>e. (sourceDepartment e, targetDepartment e))
                   (getDelayPropagationMap journeys))"
proof -
  have plain: "plain_names (all_pairs journeys)"
    by (rule plain_all_pairs [OF assms])
  show ?thesis
    using edges_sorted [of journeys] edge_fields [OF plain] wait_has_edge [OF plain]
      one_edge_per_pair [OF plain]
    by blast
qed


lemma boundary_journeys:
  "getPatientJourneys None boundary_logs =
     [\<lparr>patientId = ''p1'', totalDuration = 57 / 2, stages =
        [\<lparr>department = ''Triage'', category = Treatment, entryTime = 0, exitTime = 600000,
           duration = 10\<rparr>,
         \<lparr>department = ''Lab'', category = Treatment, entryTime = 900000, exitTime = 1500000,
           duration = 10\<rparr>,
         \<lparr>department = ''Imaging'', category = Diagnostics, entryTime = 1890000,
           exitTime = 2400000, duration = 17 / 2\<rparr>]\<rparr>,
      \<lparr>patientId = ''p2'', totalDuration = 19, stages =
        [\<lparr>department = ''Lab'', category = Treatment, entryTime = 0, exitTime = 600000,
           duration = 10\<rparr>,
         \<lparr>department = ''Imaging'', category = Diagnostics, entryTime = 960000,
           exitTime = 1500000, duration = 9\<rparr>]\<rparr>]"
  by (simp add: boundary_logs_def getPatientJourneys_def add_log_def Let_def truthy_def
      str_or_def minutes_between_def finish_journey_def categorizeDepartment_def
      DEPARTMENT_CATEGORIES_def)

lemma boundary_map:
  "propagation_map (getPatientJourneys None boundary_logs)
     = [(''Lab'' @ arrow @ ''Imaging'', \<lparr>totalDelay = 25 / 2, count = 2\<rparr>)]"
  unfolding boundary_journeys
  by (simp add: propagation_map_def record_wait_def Let_def minutes_between_def arrow_def)

lemma boundary_waits:
  "counted_waits (getPatientJourneys None boundary_logs)
     = [(''Lab'', ''Imaging'', 13 / 2), (''Lab'', ''Imaging'', 6)]"
  unfolding boundary_journeys
  by (simp add: counted_waits_def minutes_between_def)

lemma boundary_edges:
  "getDelayPropagationMap (getPatientJourneys None boundary_logs)
     = [\<lparr>sourceDepartment = ''Lab'', targetDepartment = ''Imaging'',
         avgDelayTransferred = 6, prop_patientsAffected = 2,
         propagationStrength = 104 / 10\<rparr>]"
  unfolding getDelayPropagationMap_def boundary_map
  by (simp add: make_propagation_def Let_def arrow_def js_round_def round1_def)

text \<open>
  Claim C5 as stated fails on the reported values: the two counted waits from the Lab to
  Imaging, 6.5 and 6 minutes, have the average 6.25 and the strength 10.41..., and the
  edge reports the average delay 6 and the strength 10.4. The wait of 5 minutes from
  Triage to the Lab gives no edge.
\<close>

theorem delay_edges_counterexample:
  "getDelayPropagationMap (getPatientJourneys None boundary_logs)
     = [\<lparr>sourceDepartment = ''Lab'', targetDepartment = ''Imaging'',
         avgDelayTransferred = 6, prop_patientsAffected = 2,
         propagationStrength = 104 / 10\<rparr>]
   \<and> waits_between ''Lab'' ''Imaging'' (counted_waits (getPatientJourneys None boundary_logs))
       = [13 / 2, 6]
   \<and> (13 / 2 + 6) / 2 \<noteq> (6 :: real)
   \<and> min 100 ((13 / 2 + 6) / 2 / 60 * 100) \<noteq> (104 / 10 :: real)"
  by (simp add: boundary_edges boundary_waits waits_between_def)

theorem delay_edges_witness:
  "\<not> has_arrow ''Triage'' \<and> \<not> has_arrow ''Lab'' \<and> \<not> has_arrow ''Imaging''
   \<and> map (\<lambda>e. (sourceDepartment e, targetDepartment e, prop_patientsAffected e,
                avgDelayTransferred e, propagationStrength e))
        (getDelayPropagationMap (getPatientJourneys None boundary_logs))
      = [(''Lab'', ''Imaging'', 2, 6, 104 / 10)]"
proof -
  have h: "\<forall>j \<in> set (getPatientJourneys None boundary_logs).
      \<forall>s \<in> set (stages j). \<not> has_arrow (department s)"
    unfolding boundary_journeys by (simp add: arrow_def)
  from delay_edges [OF h] show ?thesis
    by (simp add: boundary_edges arrow_def)
qed

end
